theory Spec2Isabelle
  imports Complex_Main "HOL-Library.Sublist"
begin

section \<open>JavaScript values\<close>

text \<open>
  The configuration objects, the schema files and a few fields of the records are
  loosely typed in the source, so they are modelled as JavaScript values. A number is a
  finite value, NaN or an infinity (\<open>JInfinity True\<close> is the positive one). An object
  is the list of its own properties; \<open>JFunction\<close> is a function, by its name. What a
  value inherits through its prototype chain is a parameter where the source reads a
  key that the configuration chooses (\<open>get_prop\<close>).
\<close>

datatype jsval = JUndefined | JNull | JBool bool | JNum real | JNaN | JInfinity bool
  | JStr string | JArr "jsval list" | JObj "(string \<times> jsval) list" | JFunction string

text \<open>\<open>new Error(message)\<close>; every error of the source is raised or returned as such a value.\<close>

datatype js_error = Error string

fun message :: "js_error \<Rightarrow> string" where
  "message (Error m) = m"

text \<open>What \<open>if (v)\<close>, \<open>!v\<close> and \<open>v && ...\<close> test.\<close>

fun truthy :: "jsval \<Rightarrow> bool" where
  "truthy JUndefined = False"
| "truthy JNull = False"
| "truthy (JBool b) = b"
| "truthy (JNum r) = (r \<noteq> 0)"
| "truthy JNaN = False"
| "truthy (JInfinity p) = True"
| "truthy (JStr s) = (s \<noteq> [])"
| "truthy (JArr xs) = True"
| "truthy (JObj kvs) = True"
| "truthy (JFunction f) = True"

fun typeof :: "jsval \<Rightarrow> string" where
  "typeof JUndefined = ''undefined''"
| "typeof JNull = ''object''"
| "typeof (JBool b) = ''boolean''"
| "typeof (JNum r) = ''number''"
| "typeof JNaN = ''number''"
| "typeof (JInfinity p) = ''number''"
| "typeof (JStr s) = ''string''"
| "typeof (JArr xs) = ''object''"
| "typeof (JObj kvs) = ''object''"
| "typeof (JFunction f) = ''function''"

text \<open>\<open>v <= 0\<close>, which the source evaluates on numbers only (after \<open>typeof v !== 'number' ||\<close>).\<close>

fun le_zero :: "jsval \<Rightarrow> bool" where
  "le_zero (JNum r) = (r \<le> 0)"
| "le_zero (JInfinity p) = (\<not> p)"
| "le_zero v = False"

text \<open>
  \<open>obj[key]\<close> on a value that is neither \<open>null\<close> nor \<open>undefined\<close>: the own property of an
  object where it has one of that name; otherwise what the runtime finds for the key,
  \<open>inh obj key\<close>: a member of the prototype chain (\<open>toString\<close>, \<open>constructor\<close>, ...), an
  index or the length of an array or a string, or \<open>undefined\<close>.
\<close>

fun get_prop :: "(jsval \<Rightarrow> string \<Rightarrow> jsval) \<Rightarrow> jsval \<Rightarrow> string \<Rightarrow> jsval" where
  "get_prop inh (JObj kvs) k = (case map_of kvs k of Some v \<Rightarrow> v | None \<Rightarrow> inh (JObj kvs) k)"
| "get_prop inh v k = inh v k"

text \<open>
  \<open>String.prototype.toLowerCase\<close> on the ASCII letters; a character is a byte here, and
  the bytes of a letter outside ASCII are left as they are.
\<close>

definition lower_char :: "char \<Rightarrow> char" where
  "lower_char c =
     (case map_of (zip ''ABCDEFGHIJKLMNOPQRSTUVWXYZ'' ''abcdefghijklmnopqrstuvwxyz'') c of
        Some d \<Rightarrow> d
      | None \<Rightarrow> c)"

definition toLowerCase :: "string \<Rightarrow> string" where
  "toLowerCase s = map lower_char s"

text \<open>The decimal digits of an array index, as a template literal prints it.\<close>

function string_of_nat :: "nat \<Rightarrow> string" where
  "string_of_nat n =
     (if n < 10 then [''0123456789'' ! n]
      else string_of_nat (n div 10) @ [''0123456789'' ! (n mod 10)])"
  by pat_completeness auto
termination
  by (relation "measure id") auto

declare string_of_nat.simps [simp del]

section \<open>The category-to-match transformer\<close>

subsection \<open>Categories and matches\<close>

text \<open>
  A synonym \<open>{name, isExactMatch}\<close> and a category as the source reads them. The
  fields \<open>language\<close> and \<open>categoryDisplay\<close> of a category carry the prefix \<open>cat_\<close>, the
  fields of a synonym the prefix \<open>syn_\<close>: a match has fields of the same names.
\<close>

record bb_synonym =
  syn_name :: string
  syn_isExactMatch :: bool

record bb_category =
  categoryID :: string
  categoryName :: string
  isExactMatch :: bool
  cat_language :: string
  includeSynonyms :: "bb_synonym list"
  excludeSynonyms :: "bb_synonym list"
  cat_categoryDisplay :: jsval

text \<open>
  A match (the loader's \<open>BestbetMatch\<close>). \<open>tokenCount\<close> is \<open>None\<close> where the object holds
  \<open>undefined\<close>. \<open>categoryDisplay\<close> and \<open>weight\<close> are \<open>JUndefined\<close> and \<open>isCategory\<close> is
  \<open>False\<close> on an object that has no such property: the loader reads \<open>isCategory\<close> only
  through a truth test.
\<close>

record bestbet_match =
  category :: string
  contentID :: string
  synonym :: string
  language :: string
  isNegated :: bool
  isExact :: bool
  tokenCount :: "nat option"
  categoryDisplay :: jsval
  isCategory :: bool
  weight :: jsval

subsection \<open>The transformer instance\<close>

text \<open>The options handed to \<open>new elasticsearch.Client\<close>.\<close>

record es_client =
  hosts :: jsval
  apiVersion :: jsval
  maxSockets :: jsval
  keepAlive :: bool

text \<open>
  The instance: \<open>tokenCache\<close> and \<open>fetchQueue\<close> are keyed by the lower-cased name.
  A key holds what was stored under it; the names of the members that every object
  inherits (\<open>constructor\<close>, \<open>__proto__\<close>, ...), for which the lookup of the code finds
  the inherited member where nothing was stored, are not names of this model.
  \<open>analyzed\<close> lists the texts sent to \<open>esclient.indices.analyze\<close>, oldest first, and
  \<open>logged\<close> the messages given to \<open>logger.error\<close>; both are there to state what the
  instance did.
\<close>

record xformer =
  esclient :: es_client
  analyzerSetting :: "(string \<times> jsval) list"
  tokenCache :: "string \<rightharpoonup> nat"
  fetchQueue :: "string \<rightharpoonup> bool"
  analyzed :: "string list"
  logged :: "string list"

text \<open>The constructor: it throws without a client; the settings keep the truthy options.\<close>

definition new_CategoryToMatchTransformer ::
  "es_client option \<Rightarrow> jsval \<Rightarrow> jsval \<Rightarrow> js_error + xformer" where
  "new_CategoryToMatchTransformer client tokenizer filter' =
     (case client of
        None \<Rightarrow> Inl (Error ''You must supply an Elasticsearch client'')
      | Some c \<Rightarrow>
          Inr \<lparr> esclient = c,
                analyzerSetting =
                  (if truthy (if tokenizer = JUndefined then JBool False else tokenizer)
                   then [(''tokenizer'', tokenizer)] else []) @
                  (if truthy (if filter' = JUndefined then JBool False else filter')
                   then [(''filter'', filter')] else []),
                tokenCache = Map.empty,
                fetchQueue = Map.empty,
                analyzed = [],
                logged = [] \<rparr>)"

subsection \<open>Token counts\<close>

text \<open>
  The analysis service: what \<open>esclient.indices.analyze\<close> answers for a text, an error
  or the number of tokens (\<open>res.tokens.length\<close>).
\<close>

type_synonym analyzer = "string \<Rightarrow> js_error + nat"

text \<open>
  A promise once nothing more can happen to it: resolved, rejected, or still pending
  (a caller that is still polling when the fuel of the model is used up).
\<close>

datatype 'a promise = Resolved 'a | Rejected js_error | Pending

text \<open>
  \<open>if (this.tokenCache[key]) return this.tokenCache[key]\<close>: the entry counts as cached
  when it is a truthy number, so a stored count of 0 reads as no entry. \<open>truthy_flag\<close> is
  the test \<open>if (this.fetchQueue[key])\<close>.
\<close>

fun cached :: "nat option \<Rightarrow> nat option" where
  "cached None = None"
| "cached (Some n) = (if n \<noteq> 0 then Some n else None)"

fun truthy_flag :: "bool option \<Rightarrow> bool" where
  "truthy_flag None = False"
| "truthy_flag (Some b) = b"

definition tokenizeName :: "analyzer \<Rightarrow> string \<Rightarrow> xformer \<Rightarrow> (js_error + nat) \<times> xformer" where
  "tokenizeName up name x =
     (let x1 = x\<lparr>analyzed := analyzed x @ [name]\<rparr> in
      case up name of
        Inl err \<Rightarrow>
          (Inl err,
           x1\<lparr>logged := logged x1 @ [''Could not analyze '' @ name @ ''. '' @ message err]\<rparr>)
      | Inr n \<Rightarrow> (Inr n, x1))"

text \<open>
  \<open>tokenizeNameWrap\<close> for a caller that runs alone: nothing else touches the instance
  while it sleeps, so a poll (\<open>await timeout(100)\<close>, then the call to itself) finds the
  instance as it left it. Each poll uses one unit of fuel.
\<close>

fun tokenizeNameWrap :: "analyzer \<Rightarrow> nat \<Rightarrow> string \<Rightarrow> xformer \<Rightarrow> nat promise \<times> xformer" where
  "tokenizeNameWrap up fuel name x =
     (case cached (tokenCache x (toLowerCase name)) of
        Some n \<Rightarrow> (Resolved n, x)
      | None \<Rightarrow>
          if truthy_flag (fetchQueue x (toLowerCase name))
          then (case fuel of
                  0 \<Rightarrow> (Pending, x)
                | Suc f \<Rightarrow> tokenizeNameWrap up f name x)
          else
            (let x1 = x\<lparr>fetchQueue := (fetchQueue x)(toLowerCase name \<mapsto> True)\<rparr> in
             case tokenizeName up name x1 of
               (Inl err, x2) \<Rightarrow> (Rejected err, x2)
             | (Inr n, x2) \<Rightarrow>
                 (let x3 = x2\<lparr>tokenCache := (tokenCache x2)(toLowerCase name \<mapsto> n)\<rparr>;
                      x4 = x3\<lparr>fetchQueue := (fetchQueue x3)(toLowerCase name \<mapsto> False)\<rparr>
                  in (Resolved n, x4))))"

declare tokenizeNameWrap.simps [simp del]

text \<open>
  \<open>Promise.all(nameArr.map(async name => ...))\<close>: the calls are started in array order,
  and each touches the cache entry of its own key only, so they are run one after the
  other here (the section on interleaved callers below has the calls as they overlap).
  The promise rejects as soon as one call does, also when another never settles; of
  several rejections the first in array order is reported. The instance returned is the
  one that all the calls leave behind.
\<close>

fun tokenizeNames_calls ::
  "analyzer \<Rightarrow> nat \<Rightarrow> string list \<Rightarrow> xformer \<Rightarrow> (string \<times> nat promise) list \<times> xformer" where
  "tokenizeNames_calls up fuel [] x = ([], x)"
| "tokenizeNames_calls up fuel (name # rest) x =
     (case tokenizeNameWrap up fuel name x of
        (p, x1) \<Rightarrow>
          (case tokenizeNames_calls up fuel rest x1 of
             (ps, x2) \<Rightarrow> ((name, p) # ps, x2)))"

fun promise_all :: "(string \<times> nat promise) list \<Rightarrow> (string \<times> nat) list promise" where
  "promise_all [] = Resolved []"
| "promise_all ((name, Rejected e) # rest) = Rejected e"
| "promise_all ((name, Pending) # rest) =
     (case promise_all rest of
        Rejected e \<Rightarrow> Rejected e
      | Resolved rs \<Rightarrow> Pending
      | Pending \<Rightarrow> Pending)"
| "promise_all ((name, Resolved count) # rest) =
     (case promise_all rest of
        Rejected e \<Rightarrow> Rejected e
      | Resolved rs \<Rightarrow> Resolved ((name, count) # rs)
      | Pending \<Rightarrow> Pending)"

definition tokenizeNames ::
  "analyzer \<Rightarrow> nat \<Rightarrow> string list \<Rightarrow> xformer \<Rightarrow> (string \<rightharpoonup> nat) promise \<times> xformer" where
  "tokenizeNames up fuel nameArr x =
     (case tokenizeNames_calls up fuel nameArr x of
        (ps, x1) \<Rightarrow>
          (case promise_all ps of
             Resolved results \<Rightarrow>
               (Resolved (foldl (\<lambda>ac curr. ac(fst curr \<mapsto> snd curr)) Map.empty results), x1)
           | Rejected e \<Rightarrow> (Rejected e, x1)
           | Pending \<Rightarrow> (Pending, x1)))"

subsection \<open>From a category to its matches\<close>

definition extractMatchFromSyn :: "bb_category \<Rightarrow> bool \<Rightarrow> bb_synonym \<Rightarrow> bestbet_match" where
  "extractMatchFromSyn cat isNeg syn =
     \<lparr> category = categoryName cat,
       contentID = categoryID cat,
       synonym = syn_name syn,
       language = cat_language cat,
       isNegated = isNeg,
       isExact = syn_isExactMatch syn,
       tokenCount = Some 0,
       categoryDisplay = JUndefined,
       isCategory = False,
       weight = JUndefined \<rparr>"

definition extractNamesToTokenize :: "bb_category \<Rightarrow> string list" where
  "extractNamesToTokenize cat =
     foldl (\<lambda>ac curr.
              if \<not> list_ex (\<lambda>el. toLowerCase el = toLowerCase curr) ac
              then ac @ [curr]
              else ac)
       []
       ([categoryName cat] @ map syn_name (includeSynonyms cat)
          @ map syn_name (excludeSynonyms cat))"

definition transform ::
  "analyzer \<Rightarrow> nat \<Rightarrow> bb_category \<Rightarrow> xformer \<Rightarrow> bestbet_match list promise \<times> xformer" where
  "transform up fuel data x =
     (let namesToTokenize = extractNamesToTokenize data in
      case tokenizeNames up fuel namesToTokenize x of
        (Rejected e, x1) \<Rightarrow> (Rejected e, x1)
      | (Pending, x1) \<Rightarrow> (Pending, x1)
      | (Resolved lookup, x1) \<Rightarrow>
          (let incMatches =
                 map (\<lambda>syn. (extractMatchFromSyn data False syn)
                               \<lparr>tokenCount := lookup (syn_name syn)\<rparr>)
                   (includeSynonyms data);
               exMatches =
                 map (\<lambda>syn. (extractMatchFromSyn data True syn)
                               \<lparr>tokenCount := lookup (syn_name syn)\<rparr>)
                   (excludeSynonyms data);
               catMatch =
                 \<lparr> category = categoryName data,
                   contentID = categoryID data,
                   synonym = categoryName data,
                   language = cat_language data,
                   isNegated = False,
                   isExact = isExactMatch data,
                   tokenCount = lookup (categoryName data),
                   categoryDisplay = cat_categoryDisplay data,
                   isCategory = False,
                   weight = JUndefined \<rparr>
           in (Resolved ([catMatch] @ incMatches @ exMatches), x1)))"

subsection \<open>Interleaved callers of \<open>tokenizeNameWrap\<close>\<close>

text \<open>
  Execution is single-threaded and cooperative: a call runs until its next \<open>await\<close>.
  A call of \<open>tokenizeNameWrap\<close> is therefore in one of four states: asleep in
  \<open>await timeout(100)\<close>, waiting for the answer of the analysis request it sent
  (\<open>await this.tokenizeName(name)\<close>), returned, or thrown.
\<close>

datatype call_state = Sleeping string | Fetching string | Returned nat | Threw js_error

text \<open>
  What can happen next: a caller (numbered) calls \<open>tokenizeNameWrap(name)\<close>, the timer of
  a sleeping call fires, or the analysis service answers the request of a fetching call.
\<close>

datatype event = Call nat string | Timeout nat | Reply nat "js_error + nat"

record tokenizer_run =
  inst :: xformer
  calls :: "nat \<rightharpoonup> call_state"

text \<open>\<open>tokenizeNameWrap\<close> from its entry to its first \<open>await\<close> (or to its \<open>return\<close>).\<close>

definition enter :: "string \<Rightarrow> xformer \<Rightarrow> call_state \<times> xformer" where
  "enter name x =
     (case cached (tokenCache x (toLowerCase name)) of
        Some n \<Rightarrow> (Returned n, x)
      | None \<Rightarrow>
          if truthy_flag (fetchQueue x (toLowerCase name))
          then (Sleeping name, x)
          else (Fetching name,
                x\<lparr>fetchQueue := (fetchQueue x)(toLowerCase name \<mapsto> True),
                  analyzed := analyzed x @ [name]\<rparr>))"

text \<open>The rest of the call once the analysis request is answered.\<close>

fun answered :: "string \<Rightarrow> js_error + nat \<Rightarrow> xformer \<Rightarrow> call_state \<times> xformer" where
  "answered name (Inr n) x =
     (let x3 = x\<lparr>tokenCache := (tokenCache x)(toLowerCase name \<mapsto> n)\<rparr>;
          x4 = x3\<lparr>fetchQueue := (fetchQueue x3)(toLowerCase name \<mapsto> False)\<rparr>
      in (Returned n, x4))"
| "answered name (Inl err) x =
     (Threw err,
      x\<lparr>logged := logged x @ [''Could not analyze '' @ name @ ''. '' @ message err]\<rparr>)"

text \<open>An event that does not fit the state of its call (or a number already in use) changes nothing.\<close>

fun step :: "event \<Rightarrow> tokenizer_run \<Rightarrow> tokenizer_run" where
  "step (Call i name) r =
     (case calls r i of
        Some c \<Rightarrow> r
      | None \<Rightarrow>
          (case enter name (inst r) of
             (c, x) \<Rightarrow> r\<lparr>inst := x, calls := (calls r)(i \<mapsto> c)\<rparr>))"
| "step (Timeout i) r =
     (case calls r i of
        Some (Sleeping name) \<Rightarrow>
          (case enter name (inst r) of
             (c, x) \<Rightarrow> r\<lparr>inst := x, calls := (calls r)(i \<mapsto> c)\<rparr>)
      | _ \<Rightarrow> r)"
| "step (Reply i answer) r =
     (case calls r i of
        Some (Fetching name) \<Rightarrow>
          (case answered name answer (inst r) of
             (c, x) \<Rightarrow> r\<lparr>inst := x, calls := (calls r)(i \<mapsto> c)\<rparr>)
      | _ \<Rightarrow> r)"

definition run :: "event list \<Rightarrow> tokenizer_run \<Rightarrow> tokenizer_run" where
  "run evs r = foldl (\<lambda>r e. step e r) r evs"

text \<open>The analysis requests sent so far for a name, whatever its letter case.\<close>

definition requests_for :: "string \<Rightarrow> tokenizer_run \<Rightarrow> string list" where
  "requests_for name r =
     filter (\<lambda>t. toLowerCase t = toLowerCase name) (analyzed (inst r))"

text \<open>
  A key is abandoned when its fetch flag is set, nothing is cached for it and no call
  is fetching it: the state an analysis failure leaves behind.
\<close>

definition abandoned :: "string \<Rightarrow> tokenizer_run \<Rightarrow> bool" where
  "abandoned k r \<longleftrightarrow>
     truthy_flag (fetchQueue (inst r) k) \<and> cached (tokenCache (inst r) k) = None \<and>
     (\<forall>i name. calls r i = Some (Fetching name) \<longrightarrow> toLowerCase name \<noteq> k)"

text \<open>
  Single flight: two calls that are fetching the same key are the same call, and the
  flag of a key that is being fetched is set.
\<close>

definition single_flight :: "tokenizer_run \<Rightarrow> bool" where
  "single_flight r \<longleftrightarrow>
     (\<forall>i j n m. calls r i = Some (Fetching n) \<and> calls r j = Some (Fetching m) \<and>
        toLowerCase n = toLowerCase m \<longrightarrow> i = j) \<and>
     (\<forall>i n. calls r i = Some (Fetching n) \<longrightarrow> truthy_flag (fetchQueue (inst r) (toLowerCase n)))"

definition idle :: "xformer \<Rightarrow> tokenizer_run" where
  "idle x = \<lparr> inst = x, calls = Map.empty \<rparr>"

section \<open>The Elasticsearch loader\<close>

subsection \<open>Documents and the calls to \<open>ElasticTools\<close>\<close>

text \<open>The document of a match in the collection \<open>synonyms\<close>.\<close>

record synonym_doc =
  doc_category :: string
  doc_contentid :: string
  doc_synonym :: string
  doc_language :: string
  is_negated :: bool
  is_exact :: bool
  tokencount :: "nat option"

text \<open>The document \<open>{contentid, name, weight, content}\<close> of a category in the collection \<open>categorydisplay\<close>.\<close>

record display_doc =
  display_contentid :: string
  display_name :: string
  display_weight :: jsval
  display_content :: jsval

text \<open>What \<open>indexDocumentBulk\<close> resolves to.\<close>

record bulk_result =
  updated :: "string list"
  errors :: "jsval list"

text \<open>
  A call to \<open>ElasticTools\<close> with its arguments. The index name is \<open>None\<close> while
  \<open>this.indexName\<close> is still \<open>false\<close>.
\<close>

datatype es_call =
    CreateTimestampedIndex string jsval jsval
  | IndexDocumentBulk "string option" string "(string \<times> synonym_doc) list"
  | IndexDocument "string option" string string display_doc
  | OptimizeIndex "string option"
  | SetAliasToSingleIndex string "string option"
  | CleanupOldIndices string jsval jsval

text \<open>
  \<open>ElasticTools\<close> is an external package: its operations are a parameter of the model.
  Each takes the state of the search engine and gives its outcome (\<open>Inl\<close> when the
  promise rejects) with the state it leaves.
\<close>

record 's elastic_tools =
  createTimestampedIndex ::
    "string \<Rightarrow> jsval \<Rightarrow> jsval \<Rightarrow> 's \<Rightarrow> (js_error + string) \<times> 's"
  indexDocumentBulk ::
    "string option \<Rightarrow> string \<Rightarrow> (string \<times> synonym_doc) list \<Rightarrow> 's
       \<Rightarrow> (js_error + bulk_result) \<times> 's"
  indexDocument ::
    "string option \<Rightarrow> string \<Rightarrow> string \<Rightarrow> display_doc \<Rightarrow> 's \<Rightarrow> (js_error + unit) \<times> 's"
  optimizeIndex :: "string option \<Rightarrow> 's \<Rightarrow> (js_error + unit) \<times> 's"
  setAliasToSingleIndex :: "string \<Rightarrow> string option \<Rightarrow> 's \<Rightarrow> (js_error + unit) \<times> 's"
  cleanupOldIndices :: "string \<Rightarrow> jsval \<Rightarrow> jsval \<Rightarrow> 's \<Rightarrow> (js_error + unit) \<times> 's"

text \<open>
  The loader instance. \<open>client\<close> holds the options of the client that its \<open>estools\<close>
  wraps; \<open>called\<close> lists the calls made to \<open>estools\<close>, oldest first, and \<open>error_log\<close> the
  messages given to \<open>logger.error\<close>.
\<close>

record loader =
  aliasName :: string
  daysToKeep :: jsval
  minIndexesToKeep :: jsval
  client :: es_client
  indexName :: "string option"
  mappings :: jsval
  settings :: jsval
  called :: "es_call list"
  error_log :: "string list"

text \<open>\<open>${this.indexName}\<close> in a template literal.\<close>

fun show_indexName :: "string option \<Rightarrow> string" where
  "show_indexName None = ''false''"
| "show_indexName (Some n) = n"

fun str_of :: "jsval \<Rightarrow> string" where
  "str_of (JStr s) = s"
| "str_of v = []"

text \<open>
  The constructor, with the defaults of its destructured options (a default is taken
  when the option is \<open>undefined\<close>).
\<close>

definition new_ElasticBestbetsLoader ::
  "es_client \<Rightarrow> jsval \<Rightarrow> jsval \<Rightarrow> (string \<times> jsval) list \<Rightarrow> js_error + loader" where
  "new_ElasticBestbetsLoader estools_client mappings' settings' config =
     (let opt = (\<lambda>k d. case map_of config k of
                          None \<Rightarrow> d
                        | Some v \<Rightarrow> if v = JUndefined then d else v);
          daysToKeep' = opt ''daysToKeep'' (JNum 10);
          minIndexesToKeep' = opt ''minIndexesToKeep'' (JNum 2);
          aliasName' = opt ''aliasName'' (JBool False)
      in if \<not> truthy aliasName' \<or> typeof aliasName' \<noteq> ''string''
         then Inl (Error ''aliasName is required for the elastic loader'')
         else if \<not> truthy daysToKeep' \<or> typeof daysToKeep' \<noteq> ''number''
         then Inl (Error ''daysToKeep is required for the elastic loader'')
         else if \<not> truthy minIndexesToKeep' \<or> typeof minIndexesToKeep' \<noteq> ''number''
         then Inl (Error ''minIndexesToKeep is required for the elastic loader'')
         else Inr \<lparr> aliasName = str_of aliasName',
                     daysToKeep = daysToKeep',
                     minIndexesToKeep = minIndexesToKeep',
                     client = estools_client,
                     indexName = None,
                     mappings = mappings',
                     settings = settings',
                     called = [],
                     error_log = [] \<rparr>)"

subsection \<open>begin, loadRecord, abort, end\<close>

definition loader_begin ::
  "'s elastic_tools \<Rightarrow> loader \<Rightarrow> 's \<Rightarrow> (js_error + unit) \<times> loader \<times> 's" where
  "loader_begin et ld s =
     (let ld1 = ld\<lparr>called := called ld
                   @ [CreateTimestampedIndex (aliasName ld) (mappings ld) (settings ld)]\<rparr> in
      case createTimestampedIndex et (aliasName ld) (mappings ld) (settings ld) s of
        (Inl err, s1) \<Rightarrow>
          (Inl err,
           ld1\<lparr>error_log := error_log ld1
                  @ [''Failed to create index '' @ show_indexName (indexName ld1)]\<rparr>,
           s1)
      | (Inr created, s1) \<Rightarrow> (Inr (), ld1\<lparr>indexName := Some created\<rparr>, s1))"

text \<open>The category display that \<open>loadRecord\<close> looks for: \<open>filter\<close>, \<open>map\<close>, \<open>shift\<close>.\<close>

definition find_categoryDisplay :: "bestbet_match list \<Rightarrow> display_doc option" where
  "find_categoryDisplay matches =
     (case map (\<lambda>cat. \<lparr> display_contentid = contentID cat,
                          display_name = category cat,
                          display_weight = weight cat,
                          display_content = categoryDisplay cat \<rparr>)
             (filter (\<lambda>m. isCategory m) matches) of
        [] \<Rightarrow> None
      | d # ds \<Rightarrow> Some d)"

text \<open>The bulk index list: one document per match, its id the category id and the position.\<close>

definition docArr_of :: "bestbet_match list \<Rightarrow> (string \<times> synonym_doc) list" where
  "docArr_of matches =
     foldl (\<lambda>ac (ci, curr).
              ac @ [(contentID curr @ ''_'' @ string_of_nat ci,
                     \<lparr> doc_category = category curr,
                       doc_contentid = contentID curr,
                       doc_synonym = synonym curr,
                       doc_language = language curr,
                       is_negated = isNegated curr,
                       is_exact = isExact curr,
                       tokencount = tokenCount curr \<rparr>)])
       []
       (enumerate 0 matches)"

text \<open>
  \<open>Promise.all([indexDocumentBulk(...), indexDocument(...)])\<close>. Both requests are sent;
  \<open>bulk_first\<close> tells which of them the search engine serves, and so settles, first. The
  promise rejects with the rejection that settles first.
\<close>

definition write_both ::
  "'s elastic_tools \<Rightarrow> bool \<Rightarrow> string option \<Rightarrow> (string \<times> synonym_doc) list \<Rightarrow> display_doc
     \<Rightarrow> 's \<Rightarrow> (js_error + bulk_result \<times> unit) \<times> 's" where
  "write_both et bulk_first idx docArr d s =
     (if bulk_first
      then (case indexDocumentBulk et idx ''synonyms'' docArr s of
              (r0, s1) \<Rightarrow>
                (case indexDocument et idx ''categorydisplay'' (display_contentid d) d s1 of
                   (r1, s2) \<Rightarrow>
                     (case r0 of
                        Inl err \<Rightarrow> (Inl err, s2)
                      | Inr res0 \<Rightarrow>
                          (case r1 of
                             Inl err \<Rightarrow> (Inl err, s2)
                           | Inr res1 \<Rightarrow> (Inr (res0, res1), s2)))))
      else (case indexDocument et idx ''categorydisplay'' (display_contentid d) d s of
              (r1, s1) \<Rightarrow>
                (case indexDocumentBulk et idx ''synonyms'' docArr s1 of
                   (r0, s2) \<Rightarrow>
                     (case r1 of
                        Inl err \<Rightarrow> (Inl err, s2)
                      | Inr res1 \<Rightarrow>
                          (case r0 of
                             Inl err \<Rightarrow> (Inl err, s2)
                           | Inr res0 \<Rightarrow> (Inr (res0, res1), s2))))))"

definition loadRecord ::
  "'s elastic_tools \<Rightarrow> bool \<Rightarrow> bestbet_match list \<Rightarrow> loader \<Rightarrow> 's
     \<Rightarrow> (js_error + unit) \<times> loader \<times> 's" where
  "loadRecord et bulk_first matches ld s =
     (case matches of
        [] \<Rightarrow> (Inl (Error ''A category resulted in 0 matches''), ld, s)
      | m0 # ms \<Rightarrow>
          (case find_categoryDisplay matches of
             None \<Rightarrow>
               (Inl (Error (''Category '' @ contentID m0 @ '' is missing its display'')), ld, s)
           | Some d \<Rightarrow>
               (let docArr = docArr_of matches;
                    ld1 = ld\<lparr>called := called ld
                            @ [IndexDocumentBulk (indexName ld) ''synonyms'' docArr,
                               IndexDocument (indexName ld) ''categorydisplay'' (display_contentid d) d]\<rparr>
                in case write_both et bulk_first (indexName ld) docArr d s of
                     (Inl err, s1) \<Rightarrow>
                       (Inl err,
                        ld1\<lparr>error_log := error_log ld1
                               @ [''Could not index synonyms for '' @ contentID m0]\<rparr>,
                        s1)
                   | (Inr res, s1) \<Rightarrow>
                       if updated (fst res) \<noteq> []
                       then (let msg = ''Category '' @ contentID m0 @ '' appears to have duplicates''
                             in (Inl (Error msg), ld1\<lparr>error_log := error_log ld1 @ [msg]\<rparr>, s1))
                       else if errors (fst res) \<noteq> []
                       then (let msg = ''Category '' @ contentID m0 @ '' appears had document errors''
                             in (Inl (Error msg), ld1\<lparr>error_log := error_log ld1 @ [msg]\<rparr>, s1))
                       else (Inr (), ld1, s1))))"

definition loader_abort :: "loader \<Rightarrow> 's \<Rightarrow> (js_error + unit) \<times> loader \<times> 's" where
  "loader_abort ld s = (Inl (Error ''Not Implemented''), ld, s)"

definition loader_end ::
  "'s elastic_tools \<Rightarrow> loader \<Rightarrow> 's \<Rightarrow> (js_error + unit) \<times> loader \<times> 's" where
  "loader_end et ld s =
     (let ld1 = ld\<lparr>called := called ld @ [OptimizeIndex (indexName ld)]\<rparr> in
      case optimizeIndex et (indexName ld) s of
        (Inl err, s1) \<Rightarrow>
          (Inl err,
           ld1\<lparr>error_log := error_log ld1 @ [''Errors occurred during end process'']\<rparr>,
           s1)
      | (Inr u, s1) \<Rightarrow>
          (let ld2 = ld1\<lparr>called := called ld1
                         @ [SetAliasToSingleIndex (aliasName ld) (indexName ld)]\<rparr> in
           case setAliasToSingleIndex et (aliasName ld) (indexName ld) s1 of
             (Inl err, s2) \<Rightarrow>
               (Inl err,
                ld2\<lparr>error_log := error_log ld2 @ [''Errors occurred during end process'']\<rparr>,
                s2)
           | (Inr u, s2) \<Rightarrow>
               (let ld3 = ld2\<lparr>called := called ld2
                              @ [CleanupOldIndices (aliasName ld) (daysToKeep ld)
                                   (minIndexesToKeep ld)]\<rparr> in
                case cleanupOldIndices et (aliasName ld) (daysToKeep ld)
                       (minIndexesToKeep ld) s2 of
                  (Inl err, s3) \<Rightarrow>
                    (Inl err,
                     ld3\<lparr>error_log := error_log ld3
                            @ [''Could not cleanup old indices'',
                               ''Errors occurred during end process'']\<rparr>,
                     s3)
                | (Inr u, s3) \<Rightarrow> (Inr (), ld3, s3))))"

section \<open>Configuration\<close>

text \<open>
  A step configuration is a plain object; \<open>cfg config key\<close> is \<open>config[key]\<close>. The first
  entry of a key counts, so \<open>{...config, key: v}\<close> is \<open>(key, v) # config\<close>. The keys that
  the source reads (\<open>eshosts\<close>, \<open>settingsPath\<close>, \<open>mappingPath\<close>, \<open>analyzer\<close>, \<open>socketLimit\<close>,
  \<open>aliasName\<close>, \<open>daysToKeep\<close>, \<open>minIndexesToKeep\<close>) are no members of \<open>Object.prototype\<close>, so
  a key that is no own property reads as \<open>undefined\<close>.
\<close>

type_synonym config = "(string \<times> jsval) list"

definition cfg :: "config \<Rightarrow> string \<Rightarrow> jsval" where
  "cfg config k = (case map_of config k of Some v \<Rightarrow> v | None \<Rightarrow> JUndefined)"

text \<open>
  What \<open>GetInstance\<close> takes from its surroundings:
  \<^item> the application root (\<open>path.join(__dirname, '..', '..')\<close>) and \<open>path.join\<close>;
  \<^item> \<open>require\<close>, which gives \<open>None\<close> where it throws;
  \<^item> the constructors of the packages \<open>elasticsearch\<close> and \<open>elastic-tools\<close>:
    \<open>new_Client env options\<close> is the error that \<open>new elasticsearch.Client(options)\<close> throws,
    \<open>None\<close> when it returns (the client is then identified with its options), and
    \<open>new_ElasticTools\<close> likewise for \<open>new ElasticTools(logger, client)\<close>;
  \<^item> the runtime: \<open>inherited env obj key\<close> is what \<open>obj[key]\<close> finds when \<open>key\<close> is no own
    property of \<open>obj\<close> (see \<open>get_prop\<close>), and \<open>cannot_read env obj key\<close> is the \<open>TypeError\<close>
    of \<open>obj[key]\<close> on \<open>null\<close> or \<open>undefined\<close>.
\<close>

record node_env =
  appRoot :: string
  path_join :: "string \<Rightarrow> string \<Rightarrow> string"
  require_file :: "string \<Rightarrow> jsval option"
  new_Client :: "es_client \<Rightarrow> js_error option"
  new_ElasticTools :: "es_client \<Rightarrow> js_error option"
  inherited :: "jsval \<Rightarrow> string \<Rightarrow> jsval"
  cannot_read :: "jsval \<Rightarrow> string \<Rightarrow> js_error"

subsection \<open>The transformer\<close>

definition xformer_ValidateConfig :: "config \<Rightarrow> js_error list" where
  "xformer_ValidateConfig config =
     (let errs0 = [];
          errs1 = (if \<not> truthy (cfg config ''eshosts'')
                   then errs0 @ [Error ''eshosts is required for the transformer'']
                   else errs0);
          errs2 = (if \<not> truthy (cfg config ''settingsPath'')
                      \<or> typeof (cfg config ''settingsPath'') \<noteq> ''string''
                   then errs1 @ [Error ''settingsPath is required for the transformer'']
                   else errs1);
          errs3 = (if \<not> truthy (cfg config ''analyzer'')
                      \<or> typeof (cfg config ''analyzer'') \<noteq> ''string''
                   then errs2
                     @ [Error ''You must supply the name of analyzer defined in the settings'']
                   else errs2);
          errs4 = (if truthy (cfg config ''socketLimit'')
                      \<and> (typeof (cfg config ''socketLimit'') \<noteq> ''number''
                           \<or> le_zero (cfg config ''socketLimit''))
                   then errs3 @ [Error ''socketLimit must be a number greater than 0'']
                   else errs3)
      in errs4)"

definition xformer_GetInstance :: "node_env \<Rightarrow> config \<Rightarrow> js_error + xformer" where
  "xformer_GetInstance env config =
     (if \<not> truthy (cfg config ''eshosts'')
      then Inl (Error ''eshosts is required for the elastic loader'')
      else if truthy (cfg config ''socketLimit'')
              \<and> (typeof (cfg config ''socketLimit'') \<noteq> ''number''
                   \<or> le_zero (cfg config ''socketLimit''))
      then Inl (Error ''socketLimit must be a number greater than 0'')
      else
        (let es = \<lparr> hosts = cfg config ''eshosts'',
                     apiVersion = JStr ''5.6'',
                     maxSockets = (if truthy (cfg config ''socketLimit'')
                                   then cfg config ''socketLimit'' else JNum 80),
                     keepAlive = True \<rparr> in
         case new_Client env es of
           Some thrown \<Rightarrow> Inl thrown
         | None \<Rightarrow>
             if \<not> truthy (cfg config ''settingsPath'')
                \<or> typeof (cfg config ''settingsPath'') \<noteq> ''string''
             then Inl (Error ''settingsPath is required for the elastic loader'')
             else
               (let settingsFullPath =
                      path_join env (appRoot env) (str_of (cfg config ''settingsPath'')) in
                case require_file env settingsFullPath of
                  None \<Rightarrow> Inl (Error (''settingsPath cannot be loaded: '' @ settingsFullPath))
                | Some settings' \<Rightarrow>
                    if \<not> truthy (cfg config ''analyzer'')
                       \<or> typeof (cfg config ''analyzer'') \<noteq> ''string''
                    then Inl (Error
                                ''You must supply the name of analyzer defined in the settings'')
                    else if settings' = JUndefined \<or> settings' = JNull
                    then Inl (cannot_read env settings' ''settings'')
                    else
                      (let analyzer' = str_of (cfg config ''analyzer'');
                           get = get_prop (inherited env);
                           analyzers = get (get (get settings' ''settings'') ''analysis'')
                                         ''analyzer'' in
                       if \<not> truthy (get settings' ''settings'')
                          \<or> \<not> truthy (get (get settings' ''settings'') ''analysis'')
                          \<or> \<not> truthy analyzers
                          \<or> \<not> truthy (get analyzers analyzer')
                       then Inl (Error ''Could not find analyzer in settings'')
                       else new_CategoryToMatchTransformer (Some es)
                              (get (get analyzers analyzer') ''tokenizer'')
                              (get (get analyzers analyzer') ''filter'')))))"

subsection \<open>The loader\<close>

definition loader_ValidateConfig :: "config \<Rightarrow> js_error list" where
  "loader_ValidateConfig config =
     (let errs0 = [];
          errs1 = (if \<not> truthy (cfg config ''mappingPath'')
                      \<or> typeof (cfg config ''mappingPath'') \<noteq> ''string''
                   then errs0 @ [Error ''mappingPath is required for the elastic loader'']
                   else errs0);
          errs2 = (if \<not> truthy (cfg config ''settingsPath'')
                      \<or> typeof (cfg config ''settingsPath'') \<noteq> ''string''
                   then errs1 @ [Error ''settingsPath is required for the elastic loader'']
                   else errs1);
          errs3 = (if \<not> truthy (cfg config ''eshosts'')
                   then errs2 @ [Error ''eshosts is required for the elastic loader'']
                   else errs2);
          errs4 = (if truthy (cfg config ''socketLimit'')
                      \<and> (typeof (cfg config ''socketLimit'') \<noteq> ''number''
                           \<or> le_zero (cfg config ''socketLimit''))
                   then errs3 @ [Error ''socketLimit must be a number greater than 0'']
                   else errs3)
      in errs4)"

definition loader_GetInstance :: "node_env \<Rightarrow> config \<Rightarrow> js_error + loader" where
  "loader_GetInstance env config =
     (if \<not> truthy (cfg config ''mappingPath'')
         \<or> typeof (cfg config ''mappingPath'') \<noteq> ''string''
      then Inl (Error ''mappingPath is required for the elastic loader'')
      else
        (let mapFullPath = path_join env (appRoot env) (str_of (cfg config ''mappingPath'')) in
         case require_file env mapFullPath of
           None \<Rightarrow> Inl (Error (''mappingPath cannot be loaded: '' @ mapFullPath))
         | Some mappings' \<Rightarrow>
             if \<not> truthy (cfg config ''settingsPath'')
                \<or> typeof (cfg config ''settingsPath'') \<noteq> ''string''
             then Inl (Error ''settingsPath is required for the elastic loader'')
             else
               (let settingsFullPath =
                      path_join env (appRoot env) (str_of (cfg config ''settingsPath'')) in
                case require_file env settingsFullPath of
                  None \<Rightarrow> Inl (Error (''settingsPath cannot be loaded: '' @ settingsFullPath))
                | Some settings' \<Rightarrow>
                    if \<not> truthy (cfg config ''eshosts'')
                    then Inl (Error ''eshosts is required for the elastic loader'')
                    else if truthy (cfg config ''socketLimit'')
                            \<and> (typeof (cfg config ''socketLimit'') \<noteq> ''number''
                                 \<or> le_zero (cfg config ''socketLimit''))
                    then Inl (Error ''socketLimit must be a number greater than 0'')
                    else
                      (let es = \<lparr> hosts = cfg config ''eshosts'',
                                   apiVersion = JUndefined,
                                   maxSockets = (if truthy (cfg config ''socketLimit'')
                                                 then cfg config ''socketLimit'' else JNum 80),
                                   keepAlive = True \<rparr> in
                       case new_Client env es of
                         Some thrown \<Rightarrow> Inl thrown
                       | None \<Rightarrow>
                           (case new_ElasticTools env es of
                              Some thrown \<Rightarrow> Inl thrown
                            | None \<Rightarrow>
                                new_ElasticBestbetsLoader es mappings' settings'
                                  ([(''settingsPath'', JUndefined),
                                    (''mappingPath'', JUndefined),
                                    (''eshosts'', JUndefined),
                                    (''socketLimit'', JUndefined)] @ config))))))"

section \<open>Fixtures of the tests\<close>

text \<open>
  The number of tokens of each answer in \<open>NAME_TOKEN_RESPONSES\<close>, and an analysis service
  that gives these answers and fails on any other text.
\<close>

definition NAME_TOKEN_RESPONSES :: "(string \<times> nat) list" where
  "NAME_TOKEN_RESPONSES =
     [([], 0), (''dupes'', 1), (''not dupe'', 1), (''DUPES'', 1),
      (''Cancer Research Ideas'', 3), (''Clinical Trial Ideas'', 3),
      (''colo-rectal cancers'', 3), (''Test'', 1), (''Tobacco Control'', 2),
      (''monograph'', 1), (''Branch'', 1)]"

definition analyze_fixture :: analyzer where
  "analyze_fixture text' =
     (case map_of NAME_TOKEN_RESPONSES text' of
        Some n \<Rightarrow> Inr n
      | None \<Rightarrow> Inl (Error ''Internal Server Error''))"

definition EXAMPLE_BB_35884 :: bb_category where
  "EXAMPLE_BB_35884 =
     \<lparr> categoryID = ''35884'', categoryName = ''Tobacco Control'', isExactMatch = False,
       cat_language = ''en'',
       includeSynonyms = [],
       excludeSynonyms =
         [\<lparr>syn_name = ''monograph'', syn_isExactMatch = False\<rparr>,
          \<lparr>syn_name = ''Branch'', syn_isExactMatch = False\<rparr>],
       cat_categoryDisplay = JUndefined \<rparr>"

definition EXAMPLE_BB_DUPES :: bb_category where
  "EXAMPLE_BB_DUPES =
     \<lparr> categoryID = ''DUPES'', categoryName = ''DUPES'', isExactMatch = False,
       cat_language = ''en'',
       includeSynonyms =
         [\<lparr>syn_name = ''dupes'', syn_isExactMatch = False\<rparr>,
          \<lparr>syn_name = ''not dupe'', syn_isExactMatch = False\<rparr>],
       excludeSynonyms =
         [\<lparr>syn_name = ''dupes'', syn_isExactMatch = False\<rparr>,
          \<lparr>syn_name = ''dupes'', syn_isExactMatch = False\<rparr>],
       cat_categoryDisplay = JUndefined \<rparr>"

definition elasticClient :: es_client where
  "elasticClient =
     \<lparr> hosts = JArr [JStr ''http://example.org:9200''], apiVersion = JStr ''5.6'',
       maxSockets = JNum 100, keepAlive = True \<rparr>"

text \<open>
  The instance that \<open>new CategoryToMatchTransformer(logger, elasticClient, {})\<close> returns:
  nothing cached, nothing flagged, nothing sent.
\<close>

definition fresh_xformer :: xformer where
  "fresh_xformer =
     \<lparr> esclient = elasticClient, analyzerSetting = [],
       tokenCache = Map.empty, fetchQueue = Map.empty, analyzed = [], logged = [] \<rparr>"

definition xformer_GOOD_STEP_CONFIG :: config where
  "xformer_GOOD_STEP_CONFIG =
     [(''eshosts'', JArr [JStr ''http://example.org:9200'']),
      (''settingsPath'', JStr ''es-mappings/settings.json''),
      (''analyzer'', JStr ''nostem'')]"

definition loader_GOOD_STEP_CONFIG :: config where
  "loader_GOOD_STEP_CONFIG =
     [(''eshosts'', JArr [JStr ''http://localhost:9200'']),
      (''daysToKeep'', JNum 10),
      (''aliasName'', JStr ''bestbets_v1''),
      (''mappingPath'', JStr ''es-mappings/mappings.json''),
      (''settingsPath'', JStr ''es-mappings/settings.json'')]"

text \<open>
  The schema files are not among the sources. The stand-in below holds a settings file
  with an analyzer \<open>nostem\<close> and an empty mappings file. Its constructors never throw,
  and its runtime finds the members of \<open>Object.prototype\<close> on every value and nothing
  else.
\<close>

definition Object_prototype :: "string list" where
  "Object_prototype =
     [''constructor'', ''__defineGetter__'', ''__defineSetter__'', ''hasOwnProperty'',
      ''__lookupGetter__'', ''__lookupSetter__'', ''isPrototypeOf'', ''propertyIsEnumerable'',
      ''toString'', ''valueOf'', ''__proto__'', ''toLocaleString'']"

definition test_env :: node_env where
  "test_env =
     \<lparr> appRoot = ''/app'',
       path_join = (\<lambda>a b. a @ ''/'' @ b),
       require_file =
         map_of
           [(''/app/es-mappings/settings.json'',
             JObj [(''settings'',
                    JObj [(''analysis'',
                           JObj [(''analyzer'',
                                  JObj [(''nostem'',
                                         JObj [(''tokenizer'', JStr ''standard''),
                                               (''filter'', JArr [JStr ''lowercase''])])])])])]),
            (''/app/es-mappings/mappings.json'', JObj [])],
       new_Client = (\<lambda>options. None),
       new_ElasticTools = (\<lambda>options. None),
       inherited = (\<lambda>obj k. if k = ''__proto__'' then JObj []
                              else if k \<in> set Object_prototype then JFunction k
                              else JUndefined),
       cannot_read = (\<lambda>obj k. Error (''Cannot read property '' @ k @ '' of '' @ typeof obj)) \<rparr>"

text \<open>
  The same surroundings with a client that refuses hosts that are neither a string, an
  array nor an object, as the client of the package does.
\<close>

definition strict_env :: node_env where
  "strict_env =
     test_env
       \<lparr> new_Client :=
           (\<lambda>options. if typeof (hosts options) = ''string'' \<or> typeof (hosts options) = ''object''
                       then None
                       else Some (Error ''Invalid hosts config. Expected a URL, an array of urls, a host config object, or an array of host config objects.'')) \<rparr>"

text \<open>
  A stand-in for the mocked \<open>ElasticTools\<close>: the state of the search engine is its alias
  table, \<open>setAliasToSingleIndex\<close> writes it, and the answers of the two writes and of the
  cleanup are given.
\<close>

definition mock_estools ::
  "js_error + bulk_result \<Rightarrow> js_error + unit \<Rightarrow> js_error + unit
     \<Rightarrow> (string \<rightharpoonup> string option) elastic_tools" where
  "mock_estools bulk_answer document_answer cleanup_answer =
     \<lparr> createTimestampedIndex = (\<lambda>alias m st s. (Inr (alias @ ''_20190101_000000''), s)),
       indexDocumentBulk = (\<lambda>idx coll docs s. (bulk_answer, s)),
       indexDocument = (\<lambda>idx coll ident d s. (document_answer, s)),
       optimizeIndex = (\<lambda>idx s. (Inr (), s)),
       setAliasToSingleIndex = (\<lambda>alias idx s. (Inr (), s(alias \<mapsto> idx))),
       cleanupOldIndices = (\<lambda>alias days keep s. (cleanup_answer, s)) \<rparr>"

text \<open>A loader of the alias \<open>bestbets_v1\<close> after \<open>begin\<close> has created the index of its run.\<close>

definition test_loader :: loader where
  "test_loader =
     \<lparr> aliasName = ''bestbets_v1'', daysToKeep = JNum 10, minIndexesToKeep = JNum 2,
       client = elasticClient, indexName = Some ''bestbets_v1_20190101_000000'',
       mappings = JObj [], settings = JObj [], called = [], error_log = [] \<rparr>"

text \<open>
  The category record that the test \<open>transforms no includes\<close> expects for category 35884:
  it is flagged \<open>isCategory\<close> and has no \<open>categoryDisplay\<close>. The second match is the same
  record without the flag and with a display.
\<close>

definition category_match_35884 :: bestbet_match where
  "category_match_35884 =
     \<lparr> category = ''Tobacco Control'', contentID = ''35884'', synonym = ''Tobacco Control'',
       language = ''en'', isNegated = False, isExact = False, tokenCount = Some 2,
       categoryDisplay = JUndefined, isCategory = True, weight = JNum 110 \<rparr>"

definition unflagged_match_35884 :: bestbet_match where
  "unflagged_match_35884 =
     category_match_35884
       \<lparr> categoryDisplay := JStr ''<div>Tobacco Control</div>'', isCategory := False \<rparr>"

section \<open>What the transformer emits\<close>

lemma new_CategoryToMatchTransformer_fresh:
  "new_CategoryToMatchTransformer (Some elasticClient) JUndefined JUndefined = Inr fresh_xformer"
  by (simp add: new_CategoryToMatchTransformer_def fresh_xformer_def)

subsection \<open>The names to tokenize\<close>

text \<open>
  The reduction keeps the first spelling of every name: the result has no two names that
  agree up to letter case, covers every name up to letter case, and is a subsequence of
  the category name followed by the include and the exclude synonyms.
\<close>

lemma dedupe_foldl:
  fixes names :: "string list"
  defines "f \<equiv> (\<lambda>ac curr. if \<not> list_ex (\<lambda>el. toLowerCase el = toLowerCase curr) ac
                             then ac @ [curr] else ac)"
  assumes "distinct (map toLowerCase ac)"
  shows "distinct (map toLowerCase (foldl f ac names))"
    and "set (map toLowerCase (foldl f ac names))
           = set (map toLowerCase ac) \<union> set (map toLowerCase names)"
    and "\<exists>rest. foldl f ac names = ac @ rest \<and> subseq rest names"
  using assms(2)
proof (induction names arbitrary: ac)
  case Nil
  { case 1 then show ?case by simp }
  { case 2 then show ?case by simp }
  { case 3 then show ?case by simp }
next
  case (Cons a names)
  have d: "distinct (map toLowerCase (f ac a))" if "distinct (map toLowerCase ac)" for ac
    using that by (auto simp: f_def list_ex_iff)
  have st: "set (map toLowerCase (f ac a)) = set (map toLowerCase ac) \<union> {toLowerCase a}" for ac
    by (auto simp: f_def list_ex_iff) (metis imageI)
  { case 1 then show ?case using Cons.IH(1) [OF d] by simp }
  { case 2
    from Cons.IH(2) [OF d, of ac] 2
    have "set (map toLowerCase (foldl f (f ac a) names))
            = set (map toLowerCase (f ac a)) \<union> set (map toLowerCase names)"
      by blast
    with st [of ac] show ?case by auto }
  { case 3
    from Cons.IH(3) [OF d, of ac] 3 obtain rest where
      r: "foldl f (f ac a) names = f ac a @ rest" and s: "subseq rest names" by blast
    show ?case
    proof (cases "list_ex (\<lambda>el. toLowerCase el = toLowerCase a) ac")
      case True
      with r s show ?thesis by (auto simp: f_def)
    next
      case False
      with r have "foldl f ac (a # names) = ac @ (a # rest)" by (simp add: f_def)
      moreover from s have "subseq (a # rest) (a # names)" by simp
      ultimately show ?thesis by blast
    qed }
qed

lemma extractNamesToTokenize_dedupe:
  "distinct (map toLowerCase (extractNamesToTokenize cat))"
  "set (map toLowerCase (extractNamesToTokenize cat))
     = set (map toLowerCase (categoryName cat # map syn_name (includeSynonyms cat)
                               @ map syn_name (excludeSynonyms cat)))"
  "subseq (extractNamesToTokenize cat)
     (categoryName cat # map syn_name (includeSynonyms cat) @ map syn_name (excludeSynonyms cat))"
  using dedupe_foldl [of "[]" "categoryName cat # map syn_name (includeSynonyms cat)
                                 @ map syn_name (excludeSynonyms cat)"]
  by (auto simp: extractNamesToTokenize_def)

subsection \<open>The order of the matches\<close>

lemma transform_Resolved:
  assumes "transform up fuel data x = (Resolved ms, x')"
  shows "map synonym ms =
           categoryName data # map syn_name (includeSynonyms data)
             @ map syn_name (excludeSynonyms data)"
    and "map isNegated ms =
           False # replicate (length (includeSynonyms data)) False
             @ replicate (length (excludeSynonyms data)) True"
    and "map isExact ms =
           isExactMatch data # map syn_isExactMatch (includeSynonyms data)
             @ map syn_isExactMatch (excludeSynonyms data)"
    and "categoryDisplay (hd ms) = cat_categoryDisplay data"
    and "map categoryDisplay (tl ms) = replicate (length (tl ms)) JUndefined"
    and "map contentID ms = replicate (length ms) (categoryID data)"
  using assms
  by (auto simp: transform_def Let_def extractMatchFromSyn_def comp_def map_replicate_const
      replicate_add [symmetric]
      split: prod.splits promise.splits)

text \<open>
  A call whose key has no fetch flagged and whose text the analysis service answers
  resolves, and it sets no flag that was not set before.
\<close>

lemma tokenizeNameWrap_resolves:
  assumes "\<not> truthy_flag (fetchQueue x (toLowerCase name))" and "up name = Inr c"
  shows "\<exists>n x'. tokenizeNameWrap up fuel name x = (Resolved n, x')
           \<and> (\<forall>k. truthy_flag (fetchQueue x' k) \<longrightarrow> truthy_flag (fetchQueue x k))"
  using assms
  by (cases "cached (tokenCache x (toLowerCase name))")
     (simp_all add: tokenizeNameWrap.simps tokenizeName_def Let_def)

lemma tokenizeNames_calls_resolve:
  assumes "\<forall>name\<in>set names.
             \<not> truthy_flag (fetchQueue x (toLowerCase name)) \<and> (\<exists>c. up name = Inr c)"
  shows "\<exists>rs x'. tokenizeNames_calls up fuel names x = (map (\<lambda>(n, c). (n, Resolved c)) rs, x')"
  using assms
proof (induction names arbitrary: x)
  case Nil
  then show ?case by simp
next
  case (Cons name rest)
  from Cons.prems obtain c where c: "up name = Inr c"
    and nf: "\<not> truthy_flag (fetchQueue x (toLowerCase name))"
    by auto
  from tokenizeNameWrap_resolves [of x name up c fuel] nf c obtain n x1 where
    w: "tokenizeNameWrap up fuel name x = (Resolved n, x1)"
    and fl: "\<forall>k. truthy_flag (fetchQueue x1 k) \<longrightarrow> truthy_flag (fetchQueue x k)"
    by blast
  from Cons.prems fl have
    "\<forall>name\<in>set rest.
       \<not> truthy_flag (fetchQueue x1 (toLowerCase name)) \<and> (\<exists>c. up name = Inr c)"
    by auto
  from Cons.IH [OF this] obtain rs x2 where
    r: "tokenizeNames_calls up fuel rest x1 = (map (\<lambda>(n, c). (n, Resolved c)) rs, x2)"
    by blast
  have "tokenizeNames_calls up fuel (name # rest) x
          = (map (\<lambda>(n, c). (n, Resolved c)) ((name, n) # rs), x2)"
    using w r by simp
  then show ?case by blast
qed

lemma promise_all_Resolved: "promise_all (map (\<lambda>(n, c). (n, Resolved c)) rs) = Resolved rs"
  by (induction rs) auto

lemma transform_resolves:
  assumes "\<forall>name\<in>set (extractNamesToTokenize data).
             \<not> truthy_flag (fetchQueue x (toLowerCase name)) \<and> (\<exists>c. up name = Inr c)"
  shows "\<exists>ms x'. transform up fuel data x = (Resolved ms, x')"
proof -
  from tokenizeNames_calls_resolve [OF assms, of fuel] obtain rs x' where
    "tokenizeNames_calls up fuel (extractNamesToTokenize data) x
       = (map (\<lambda>(n, c). (n, Resolved c)) rs, x')"
    by blast
  then show ?thesis
    by (simp add: transform_def tokenizeNames_def promise_all_Resolved Let_def)
qed

text \<open>
  Claim C1. For every category with m include synonyms and n exclude synonyms, when no
  fetch of one of its names is flagged and the analysis service answers each of them,
  \<open>transform\<close> resolves to exactly 1 + m + n matches: first the record of the category
  (not negated, its text the category name, exact as the category is, carrying the
  category display), then one record per include synonym in input order, not negated,
  then one record per exclude synonym in input order, negated.
\<close>

theorem transform_emits_category_includes_excludes:
  assumes "\<forall>name\<in>set (extractNamesToTokenize data).
             \<not> truthy_flag (fetchQueue x (toLowerCase name)) \<and> (\<exists>c. up name = Inr c)"
  shows "\<exists>ms x'. transform up fuel data x = (Resolved ms, x')
           \<and> length ms = 1 + length (includeSynonyms data) + length (excludeSynonyms data)
           \<and> map synonym ms =
               categoryName data # map syn_name (includeSynonyms data)
                 @ map syn_name (excludeSynonyms data)
           \<and> map isNegated ms =
               False # replicate (length (includeSynonyms data)) False
                 @ replicate (length (excludeSynonyms data)) True
           \<and> map isExact ms =
               isExactMatch data # map syn_isExactMatch (includeSynonyms data)
                 @ map syn_isExactMatch (excludeSynonyms data)
           \<and> categoryDisplay (hd ms) = cat_categoryDisplay data"
proof -
  from transform_resolves [OF assms, of fuel] obtain ms x' where
    t: "transform up fuel data x = (Resolved ms, x')"
    by blast
  from transform_Resolved(1) [OF t]
  have "length (map synonym ms)
          = 1 + length (includeSynonyms data) + length (excludeSynonyms data)"
    by simp
  then have "length ms = 1 + length (includeSynonyms data) + length (excludeSynonyms data)"
    by simp
  with t transform_Resolved(1,2,3,4) [OF t] show ?thesis
    by - (rule exI [of _ ms], rule exI [of _ x'], simp)
qed

lemma names_35884:
  "extractNamesToTokenize EXAMPLE_BB_35884 = [''Tobacco Control'', ''monograph'', ''Branch'']"
  by code_simp

theorem transform_emits_category_includes_excludes_witness:
  "\<exists>ms x'. transform analyze_fixture 0 EXAMPLE_BB_35884 fresh_xformer = (Resolved ms, x')
     \<and> length ms = 3
     \<and> map synonym ms = [''Tobacco Control'', ''monograph'', ''Branch'']
     \<and> map isNegated ms = [False, True, True]
     \<and> map isExact ms = [False, False, False]
     \<and> categoryDisplay (hd ms) = JUndefined"
proof -
  have h: "\<forall>name\<in>set (extractNamesToTokenize EXAMPLE_BB_35884).
             \<not> truthy_flag (fetchQueue fresh_xformer (toLowerCase name))
             \<and> (\<exists>c. analyze_fixture name = Inr c)"
    by (simp add: names_35884 fresh_xformer_def analyze_fixture_def NAME_TOKEN_RESPONSES_def)
  from transform_emits_category_includes_excludes [OF h, of 0] obtain ms x' where
    "transform analyze_fixture 0 EXAMPLE_BB_35884 fresh_xformer = (Resolved ms, x')"
    and "length ms = 3"
    and "map synonym ms = [''Tobacco Control'', ''monograph'', ''Branch'']"
    and "map isNegated ms = [False, True, True]"
    and "map isExact ms = [False, False, False]"
    and "categoryDisplay (hd ms) = JUndefined"
    by (auto simp: EXAMPLE_BB_35884_def)
  then show ?thesis
    by - (rule exI [of _ ms], rule exI [of _ x'], simp)
qed

subsection \<open>Token counts of names that differ in letter case\<close>

text \<open>
  Claim C2. The texts sent for tokenization are the names without repetition up to letter
  case, in their first spelling (\<open>extractNamesToTokenize_dedupe\<close>), but the lookup table
  is keyed by that first spelling and read with the spelling of each record. On the
  category \<open>DUPES\<close> of the tests, the requests are \<open>DUPES\<close> and \<open>not dupe\<close>; the record of
  the category gets the count 1, and the three records \<open>dupes\<close> get no count at all.
\<close>

theorem transform_DUPES_token_counts:
  "(case transform analyze_fixture 0 EXAMPLE_BB_DUPES fresh_xformer of
      (Resolved ms, x') \<Rightarrow>
        analyzed x' = [''DUPES'', ''not dupe'']
        \<and> map synonym ms = [''DUPES'', ''dupes'', ''not dupe'', ''dupes'', ''dupes'']
        \<and> map tokenCount ms = [Some 1, None, Some 1, None, None]
    | (Rejected e, x') \<Rightarrow> False
    | (Pending, x') \<Rightarrow> False)"
  by code_simp

text \<open>
  The same requests and counts come out of the interleaved run in which both requests
  are outstanding at once and are answered in the opposite order.
\<close>

lemma DUPES_requests_interleaved:
  "(let r = run [Call 0 ''DUPES'', Call 1 ''not dupe'',
                 Reply 1 (analyze_fixture ''not dupe''), Reply 0 (analyze_fixture ''DUPES'')]
              (idle fresh_xformer)
    in calls r 0 = Some (Returned 1)
       \<and> calls r 1 = Some (Returned 1)
       \<and> analyzed (inst r) = [''DUPES'', ''not dupe'']
       \<and> tokenCache (inst r) ''dupes'' = Some 1
       \<and> tokenCache (inst r) ''not dupe'' = Some 1)"
  by code_simp

section \<open>Interleaved callers\<close>

lemma run_Nil: "run [] r = r"
  by (simp add: run_def)

lemma run_Cons: "run (e # evs) r = run evs (step e r)"
  by (simp add: run_def)

lemma run_append: "run (as @ bs) r = run bs (run as r)"
  by (simp add: run_def)

text \<open>
  A caller that runs alone and settles is the run of its call followed by the answer of
  the analysis service: the two models of \<open>tokenizeNameWrap\<close> agree.
\<close>

lemma lone_caller:
  assumes "tokenizeNameWrap up 0 name x = (p, x')" and "p \<noteq> Pending"
  shows "inst (run [Call 0 name, Reply 0 (up name)] (idle x)) = x'"
    and "calls (run [Call 0 name, Reply 0 (up name)] (idle x)) 0 =
           Some (case p of Resolved n \<Rightarrow> Returned n | Rejected e \<Rightarrow> Threw e)"
  using assms
  by (auto simp: tokenizeNameWrap.simps tokenizeName_def run_def idle_def enter_def Let_def
      split: option.splits if_splits sum.splits)

subsection \<open>At most one analysis request per key is outstanding\<close>

lemma step_single_flight: "single_flight r \<Longrightarrow> single_flight (step e r)"
proof (cases e)
  case (Call i name)
  assume sf: "single_flight r"
  show ?thesis
  proof (cases "calls r i")
    case None
    with sf Call show ?thesis
      by (auto simp: single_flight_def enter_def split: option.splits if_splits) metis+
  next
    case (Some c)
    with sf Call show ?thesis by simp
  qed
next
  case (Timeout i)
  assume sf: "single_flight r"
  with Timeout show ?thesis
    by (auto simp: single_flight_def enter_def split: option.splits if_splits call_state.splits)
       metis+
next
  case (Reply i answer)
  assume sf: "single_flight r"
  with Reply show ?thesis
    by (cases answer)
       (auto simp: single_flight_def Let_def split: option.splits if_splits call_state.splits)
qed

lemma single_flight_reachable: "single_flight (run evs (idle x))"
proof -
  have "single_flight r \<Longrightarrow> single_flight (run evs r)" for r
    by (induction evs arbitrary: r) (simp_all add: run_Nil run_Cons step_single_flight)
  moreover have "single_flight (idle x)"
    by (simp add: single_flight_def idle_def)
  ultimately show ?thesis by blast
qed

subsection \<open>What the cache does for a count that is not 0\<close>

text \<open>
  The run of the test \<open>fetches a term only once, different case\<close>: the second caller
  sleeps while the request of the first is outstanding, wakes up after the answer and
  returns the cached count; one request is sent.
\<close>

lemma fetches_a_term_only_once_different_case:
  "(let r = run [Call 0 ''Test'', Call 1 ''TEST'', Reply 0 (Inr 1), Timeout 1] (idle fresh_xformer)
    in calls r 0 = Some (Returned 1)
       \<and> calls r 1 = Some (Returned 1)
       \<and> analyzed (inst r) = [''Test''])"
  by code_simp

text \<open>
  After a request has been answered with a count other than 0, a call with any casing
  of the name returns that count at once and leaves the instance as it is.
\<close>

lemma nonzero_count_is_cached:
  assumes "n \<noteq> 0" and "toLowerCase name' = toLowerCase name"
    and "answered name (Inr n) x = (c, x')"
  shows "enter name' x' = (Returned n, x')"
  using assms by (auto simp: enter_def Let_def)

subsection \<open>A stored count of 0 is fetched again\<close>

text \<open>
  Claim C4. At most one analysis request per key is outstanding at any time
  (\<open>single_flight_reachable\<close>), but two concurrent calls that differ in letter case only
  need not share one request. \<open>Not\<close> and \<open>NOT\<close> have no token (\<open>not\<close> is a stop word of the
  analyzer of the tests): the first call stores the count 0, the second call wakes up,
  reads the stored 0 as no entry, finds the flag cleared and sends a request of its own.
\<close>

theorem concurrent_callers_zero_count_two_requests:
  "(let r = run [Call 0 ''Not'', Call 1 ''NOT'', Reply 0 (Inr 0), Timeout 1, Reply 1 (Inr 0)]
              (idle fresh_xformer)
    in calls r 0 = Some (Returned 0)
       \<and> calls r 1 = Some (Returned 0)
       \<and> analyzed (inst r) = [''Not'', ''NOT''])"
  by code_simp

text \<open>
  Claim C8. Once a name has been resolved, a later call with any casing of the name
  answers from the cache only if the count is not 0. After \<open>not\<close> has been resolved to 0
  tokens, the call for \<open>Not\<close> does not return: it sends a second analysis request and
  waits for it.
\<close>

theorem resolved_zero_count_is_fetched_again:
  "(let r = run [Call 0 ''not'', Reply 0 (Inr 0), Call 1 ''Not''] (idle fresh_xformer)
    in calls r 0 = Some (Returned 0)
       \<and> tokenCache (inst r) ''not'' = Some 0
       \<and> calls r 1 = Some (Fetching ''Not'')
       \<and> analyzed (inst r) = [''not'', ''Not''])"
  by code_simp

subsection \<open>A failed fetch leaves its key abandoned\<close>

lemma enter_abandoned:
  assumes "truthy_flag (fetchQueue x (toLowerCase name))"
    and "cached (tokenCache x (toLowerCase name)) = None"
  shows "enter name x = (Sleeping name, x)"
  using assms by (simp add: enter_def)

lemma enter_other_key:
  assumes "enter name x = (c, x')" and "toLowerCase name \<noteq> k"
  shows "fetchQueue x' k = fetchQueue x k" and "tokenCache x' k = tokenCache x k"
    and "filter (\<lambda>t. toLowerCase t = k) (analyzed x')
           = filter (\<lambda>t. toLowerCase t = k) (analyzed x)"
    and "c = Fetching n \<Longrightarrow> n = name"
  using assms by (auto simp: enter_def split: option.splits if_splits)

lemma answered_other_key:
  assumes "answered name answer x = (c, x')" and "toLowerCase name \<noteq> k"
  shows "fetchQueue x' k = fetchQueue x k" and "tokenCache x' k = tokenCache x k"
    and "analyzed x' = analyzed x" and "c \<noteq> Fetching n"
  using assms by (cases answer; auto simp: Let_def)+

text \<open>
  No event changes an abandoned key: the flag stays set, nothing is cached, no request
  is sent for it, and a call that sleeps on it goes back to sleep whenever it wakes up.
\<close>

lemma step_abandoned:
  assumes ab: "abandoned k r"
  shows "abandoned k (step e r)"
    and "tokenCache (inst (step e r)) k = tokenCache (inst r) k"
    and "filter (\<lambda>t. toLowerCase t = k) (analyzed (inst (step e r)))
           = filter (\<lambda>t. toLowerCase t = k) (analyzed (inst r))"
    and "calls r j = Some (Sleeping name) \<Longrightarrow> toLowerCase name = k
           \<Longrightarrow> calls (step e r) j = Some (Sleeping name)"
proof -
  have enter_k: "enter name (inst r) = (Sleeping name, inst r)" if "toLowerCase name = k" for name
    using ab that by (simp add: abandoned_def enter_abandoned)
  have all: "abandoned k (step e r) \<and> tokenCache (inst (step e r)) k = tokenCache (inst r) k
      \<and> filter (\<lambda>t. toLowerCase t = k) (analyzed (inst (step e r)))
           = filter (\<lambda>t. toLowerCase t = k) (analyzed (inst r))
      \<and> (calls r j = Some (Sleeping name) \<longrightarrow> toLowerCase name = k
           \<longrightarrow> calls (step e r) j = Some (Sleeping name))"
  proof (cases e)
    case (Call i nm)
    show ?thesis
    proof (cases "toLowerCase nm = k")
      case True
      with ab Call enter_k [of nm] show ?thesis
        by (auto simp: abandoned_def split: option.splits)
    next
      case False
      obtain c x' where en: "enter nm (inst r) = (c, x')" by (cases "enter nm (inst r)")
      from enter_other_key [OF en False] ab Call en False show ?thesis
        by (auto simp: abandoned_def split: option.splits)
    qed
  next
    case (Timeout i)
    show ?thesis
    proof (cases "calls r i")
      case None
      with ab Timeout show ?thesis by simp
    next
      case (Some cs)
      show ?thesis
      proof (cases cs)
        case (Sleeping nm)
        show ?thesis
        proof (cases "toLowerCase nm = k")
          case True
          with ab Timeout Some Sleeping enter_k [of nm] show ?thesis
            by (auto simp: abandoned_def)
        next
          case False
          obtain c x' where en: "enter nm (inst r) = (c, x')" by (cases "enter nm (inst r)")
          from enter_other_key [OF en False] ab Timeout Some Sleeping en False show ?thesis
            by (auto simp: abandoned_def)
        qed
      qed (use ab Timeout Some in simp_all)
    qed
  next
    case (Reply i answer)
    show ?thesis
    proof (cases "calls r i")
      case None
      with ab Reply show ?thesis by simp
    next
      case (Some cs)
      show ?thesis
      proof (cases cs)
        case (Fetching nm)
        with ab Some have nk: "toLowerCase nm \<noteq> k" by (auto simp: abandoned_def)
        obtain c x' where an: "answered nm answer (inst r) = (c, x')"
          by (cases "answered nm answer (inst r)")
        from answered_other_key [OF an nk] ab Reply Some Fetching an nk show ?thesis
          by (auto simp: abandoned_def)
      qed (use ab Reply Some in simp_all)
    qed
  qed
  then show "abandoned k (step e r)"
    and "tokenCache (inst (step e r)) k = tokenCache (inst r) k"
    and "filter (\<lambda>t. toLowerCase t = k) (analyzed (inst (step e r)))
           = filter (\<lambda>t. toLowerCase t = k) (analyzed (inst r))"
    and "calls r j = Some (Sleeping name) \<Longrightarrow> toLowerCase name = k
           \<Longrightarrow> calls (step e r) j = Some (Sleeping name)"
    by blast+
qed

lemma run_abandoned:
  assumes "abandoned k r"
  shows "abandoned k (run evs r)"
    and "tokenCache (inst (run evs r)) k = tokenCache (inst r) k"
    and "filter (\<lambda>t. toLowerCase t = k) (analyzed (inst (run evs r)))
           = filter (\<lambda>t. toLowerCase t = k) (analyzed (inst r))"
    and "calls r j = Some (Sleeping name) \<Longrightarrow> toLowerCase name = k
           \<Longrightarrow> calls (run evs r) j = Some (Sleeping name)"
  using assms
proof (induction evs arbitrary: r)
  case Nil
  { case 1 then show ?case by (simp add: run_Nil) }
  { case 2 then show ?case by (simp add: run_Nil) }
  { case 3 then show ?case by (simp add: run_Nil) }
  { case 4 then show ?case by (simp add: run_Nil) }
next
  case (Cons e evs)
  { case 1 then show ?case
      using Cons.IH(1) [of "step e r"] by (simp add: run_Cons step_abandoned(1)) }
  { case 2 then show ?case
      using Cons.IH(2) [of "step e r"] by (simp add: run_Cons step_abandoned(1,2)) }
  { case 3 then show ?case
      using Cons.IH(3) [of "step e r"] by (simp add: run_Cons step_abandoned(1,3)) }
  { case 4 then show ?case
      using Cons.IH(4) [of "step e r"] by (simp add: run_Cons step_abandoned(1,4)) }
qed

lemma step_settled:
  "calls r i = Some (Threw err) \<Longrightarrow> calls (step e r) i = Some (Threw err)"
  "calls r i = Some (Returned n) \<Longrightarrow> calls (step e r) i = Some (Returned n)"
  by (cases e; auto split: option.splits call_state.splits prod.splits)+

lemma run_settled:
  "calls r i = Some (Threw err) \<Longrightarrow> calls (run evs r) i = Some (Threw err)"
  "calls r i = Some (Returned n) \<Longrightarrow> calls (run evs r) i = Some (Returned n)"
  by (induction evs arbitrary: r; simp add: run_Nil run_Cons step_settled)+

text \<open>
  The run in which the fetch of \<open>error\<close> fails while a second caller waits for it, and a
  third caller asks for the name afterwards.
\<close>

lemma failed_fetch_state:
  "(let r = run [Call 0 ''error'', Call 1 ''Error'',
                 Reply 0 (Inl (Error ''Internal Server Error'')), Call 2 ''error'']
              (idle fresh_xformer)
    in calls r 0 = Some (Threw (Error ''Internal Server Error''))
       \<and> calls r 1 = Some (Sleeping ''Error'')
       \<and> calls r 2 = Some (Sleeping ''error'')
       \<and> tokenCache (inst r) ''error'' = None
       \<and> filter (\<lambda>t. toLowerCase t = ''error'') (analyzed (inst r)) = [''error'']
       \<and> toLowerCase ''Error'' = ''error''
       \<and> toLowerCase ''error'' = ''error'')"
  by code_simp

lemma failed_fetch_abandoned:
  "abandoned ''error''
     (run [Call 0 ''error'', Call 1 ''Error'',
           Reply 0 (Inl (Error ''Internal Server Error'')), Call 2 ''error'']
        (idle fresh_xformer))"
  by (auto simp: abandoned_def run_def idle_def fresh_xformer_def enter_def toLowerCase_def
      lower_char_def split: if_splits)

text \<open>
  Claim C5. When the analysis request for a name fails, the cache gets no entry, but
  only the caller that sent the request sees the failure, and no later call fetches the
  name again: the fetch flag of the key stays set. In the run above, whatever happens
  afterwards (\<open>evs\<close>), the caller that was waiting and the caller that came later are
  both still asleep, and the one failed request is the only one ever sent for the name.
\<close>

theorem failed_fetch_is_never_retried:
  "(let r = run ([Call 0 ''error'', Call 1 ''Error'',
                  Reply 0 (Inl (Error ''Internal Server Error'')), Call 2 ''error''] @ evs)
              (idle fresh_xformer)
    in calls r 0 = Some (Threw (Error ''Internal Server Error''))
       \<and> calls r 1 = Some (Sleeping ''Error'')
       \<and> calls r 2 = Some (Sleeping ''error'')
       \<and> tokenCache (inst r) ''error'' = None
       \<and> requests_for ''error'' r = [''error''])"
proof -
  let ?r0 = "run [Call 0 ''error'', Call 1 ''Error'',
                  Reply 0 (Inl (Error ''Internal Server Error'')), Call 2 ''error'']
               (idle fresh_xformer)"
  note ab = failed_fetch_abandoned
  from failed_fetch_state have
    c0: "calls ?r0 0 = Some (Threw (Error ''Internal Server Error''))"
    and c1: "calls ?r0 1 = Some (Sleeping ''Error'')"
    and c2: "calls ?r0 2 = Some (Sleeping ''error'')"
    and tc: "tokenCache (inst ?r0) ''error'' = None"
    and rq: "filter (\<lambda>t. toLowerCase t = ''error'') (analyzed (inst ?r0)) = [''error'']"
    and l1: "toLowerCase ''Error'' = ''error''"
    and l2: "toLowerCase ''error'' = ''error''"
    by (simp_all add: Let_def)
  have "calls (run evs ?r0) 0 = Some (Threw (Error ''Internal Server Error''))"
    using c0 by (rule run_settled(1))
  moreover have "calls (run evs ?r0) 1 = Some (Sleeping ''Error'')"
    using ab c1 l1 by (rule run_abandoned(4))
  moreover have "calls (run evs ?r0) 2 = Some (Sleeping ''error'')"
    using ab c2 l2 by (rule run_abandoned(4))
  moreover have "tokenCache (inst (run evs ?r0)) ''error'' = None"
    using run_abandoned(2) [OF ab, of evs] tc by simp
  moreover have "requests_for ''error'' (run evs ?r0) = [''error'']"
    using run_abandoned(3) [OF ab, of evs] rq l2 by (simp add: requests_for_def)
  ultimately show ?thesis
    unfolding run_append Let_def by blast
qed

section \<open>The loader\<close>

subsection \<open>begin\<close>

lemma loader_begin_sets_indexName:
  assumes "createTimestampedIndex et (aliasName ld) (mappings ld) (settings ld) s
             = (Inr created, s1)"
  shows "\<exists>ld'. loader_begin et ld s = (Inr (), ld', s1)
           \<and> indexName ld' = Some created
           \<and> aliasName ld' = aliasName ld"
  using assms by (simp add: loader_begin_def Let_def)

subsection \<open>end\<close>

text \<open>
  The calls that \<open>end\<close> makes are an initial part of: optimize, set the alias, clean up.
  So the cleanup is attempted only after the call that sets the alias has returned.
\<close>

lemma loader_end_call_order:
  "\<exists>cs. called (fst (snd (loader_end et ld s))) = called ld @ cs
        \<and> prefix cs [OptimizeIndex (indexName ld),
                      SetAliasToSingleIndex (aliasName ld) (indexName ld),
                      CleanupOldIndices (aliasName ld) (daysToKeep ld) (minIndexesToKeep ld)]"
  by (auto simp: loader_end_def Let_def split: prod.splits sum.splits)

text \<open>
  Claim C3. In \<open>end\<close> the alias is set to the index of this run before the cleanup of old
  indices is attempted. When the cleanup then fails, \<open>end\<close> raises the error of the
  cleanup and calls nothing after it: its calls are exactly optimize, set the alias,
  clean up, and the search engine is left in the state \<open>s3\<close> in which the failed cleanup
  left it, so the alias is not touched again.
\<close>

theorem end_raises_failed_cleanup_after_alias_swap:
  assumes "optimizeIndex et (indexName ld) s = (Inr (), s1)"
    and "setAliasToSingleIndex et (aliasName ld) (indexName ld) s1 = (Inr (), s2)"
    and "cleanupOldIndices et (aliasName ld) (daysToKeep ld) (minIndexesToKeep ld) s2
           = (Inl err, s3)"
  shows "\<exists>ld'. loader_end et ld s = (Inl err, ld', s3)
           \<and> called ld' = called ld
               @ [OptimizeIndex (indexName ld),
                  SetAliasToSingleIndex (aliasName ld) (indexName ld),
                  CleanupOldIndices (aliasName ld) (daysToKeep ld) (minIndexesToKeep ld)]"
  using assms by (simp add: loader_end_def Let_def)

theorem end_raises_failed_cleanup_after_alias_swap_witness:
  "\<exists>ld' s3.
     loader_end
       (mock_estools (Inr \<lparr>updated = [], errors = []\<rparr>) (Inr ())
          (Inl (Error ''Could not delete'')))
       test_loader Map.empty
       = (Inl (Error ''Could not delete''), ld', s3)
     \<and> s3 ''bestbets_v1'' = Some (Some ''bestbets_v1_20190101_000000'')
     \<and> called ld' =
         [OptimizeIndex (Some ''bestbets_v1_20190101_000000''),
          SetAliasToSingleIndex ''bestbets_v1'' (Some ''bestbets_v1_20190101_000000''),
          CleanupOldIndices ''bestbets_v1'' (JNum 10) (JNum 2)]"
proof -
  let ?et = "mock_estools (Inr \<lparr>updated = [], errors = []\<rparr>) (Inr ())
               (Inl (Error ''Could not delete''))"
  let ?s2 = "Map.empty(''bestbets_v1'' \<mapsto> Some ''bestbets_v1_20190101_000000'')"
  have 1: "optimizeIndex ?et (indexName test_loader) Map.empty = (Inr (), Map.empty)"
    by (simp add: mock_estools_def)
  have 2: "setAliasToSingleIndex ?et (aliasName test_loader) (indexName test_loader) Map.empty
             = (Inr (), ?s2)"
    by (simp add: mock_estools_def test_loader_def)
  have 3: "cleanupOldIndices ?et (aliasName test_loader) (daysToKeep test_loader)
             (minIndexesToKeep test_loader) ?s2 = (Inl (Error ''Could not delete''), ?s2)"
    by (simp add: mock_estools_def)
  from end_raises_failed_cleanup_after_alias_swap [OF 1 2 3]
  show ?thesis
    by (auto simp: test_loader_def)
qed

subsection \<open>loadRecord: the category display\<close>

lemma find_categoryDisplay_None:
  "find_categoryDisplay matches = None \<longleftrightarrow> (\<forall>m\<in>set matches. \<not> isCategory m)"
proof (cases "filter (\<lambda>m. isCategory m) matches")
  case Nil
  then show ?thesis
    by (simp add: find_categoryDisplay_def filter_empty_conv)
next
  case (Cons m ms)
  then have "filter (\<lambda>m. isCategory m) matches \<noteq> []" by simp
  then have "\<not> (\<forall>m\<in>set matches. \<not> isCategory m)"
    by (simp add: filter_empty_conv)
  with Cons show ?thesis
    by (simp add: find_categoryDisplay_def)
qed

text \<open>
  Claim C6, as the code has it. \<open>loadRecord\<close> finds the category display through the
  flag \<open>isCategory\<close>, not through the display itself. For every non-empty list in which
  no match is flagged \<open>isCategory\<close>, it raises the error
  \<open>Category <id of the first match> is missing its display\<close>, and it calls nothing and
  logs nothing: the loader and the search engine are as they were.
\<close>

theorem loadRecord_without_flagged_match:
  assumes "matches \<noteq> []" and "\<forall>m\<in>set matches. \<not> isCategory m"
  shows "loadRecord et bulk_first matches ld s =
           (Inl (Error (''Category '' @ contentID (hd matches) @ '' is missing its display'')),
            ld, s)"
proof -
  from assms(2) have "find_categoryDisplay matches = None"
    by (simp add: find_categoryDisplay_None)
  with assms(1) show ?thesis
    by (cases matches) (simp_all add: loadRecord_def)
qed

theorem loadRecord_without_flagged_match_witness:
  "categoryDisplay unflagged_match_35884 = JStr ''<div>Tobacco Control</div>''
   \<and> loadRecord (mock_estools (Inr \<lparr>updated = [], errors = []\<rparr>) (Inr ()) (Inr ())) True
        [unflagged_match_35884] test_loader Map.empty
      = (Inl (Error ''Category 35884 is missing its display''), test_loader, Map.empty)"
  using loadRecord_without_flagged_match
    [of "[unflagged_match_35884]"
        "mock_estools (Inr \<lparr>updated = [], errors = []\<rparr>) (Inr ()) (Inr ())"
        True test_loader Map.empty]
  by (simp add: unflagged_match_35884_def category_match_35884_def)

text \<open>
  The claim as stated fails on a match that is flagged \<open>isCategory\<close> and has no display,
  as the category records in the tests of the transformer: no match of the list carries
  a display, and \<open>loadRecord\<close> writes both documents and returns without an error.
\<close>

theorem loadRecord_flagged_match_without_display:
  "categoryDisplay category_match_35884 = JUndefined
   \<and> (case loadRecord (mock_estools (Inr \<lparr>updated = [], errors = []\<rparr>) (Inr ()) (Inr ()))
             True [category_match_35884] test_loader Map.empty of
        (res, ld', s') \<Rightarrow>
          res = Inr ()
          \<and> called ld' =
              [IndexDocumentBulk (Some ''bestbets_v1_20190101_000000'') ''synonyms''
                 [(''35884_0'',
                   \<lparr> doc_category = ''Tobacco Control'', doc_contentid = ''35884'',
                     doc_synonym = ''Tobacco Control'', doc_language = ''en'',
                     is_negated = False, is_exact = False, tokencount = Some 2 \<rparr>)],
               IndexDocument (Some ''bestbets_v1_20190101_000000'') ''categorydisplay''
                 ''35884''
                 \<lparr> display_contentid = ''35884'', display_name = ''Tobacco Control'',
                   display_weight = JNum 110, display_content = JUndefined \<rparr>])"
  by (simp add: loadRecord_def category_match_35884_def find_categoryDisplay_def docArr_of_def
      write_both_def mock_estools_def test_loader_def Let_def string_of_nat.simps)

subsection \<open>loadRecord: the result of the bulk write\<close>

text \<open>
  Claim C7, as the code has it. For every match list that passes the two checks of
  \<open>loadRecord\<close>, when both writes return: if the bulk write reports updated documents,
  \<open>loadRecord\<close> raises \<open>Category <id of the first match> appears to have duplicates\<close>;
  otherwise, if it reports document errors, \<open>loadRecord\<close> raises
  \<open>Category <id of the first match> appears had document errors\<close>; otherwise it returns
  without an error.
\<close>

theorem loadRecord_checks_bulk_result:
  assumes "matches \<noteq> []" and "find_categoryDisplay matches = Some d"
    and "write_both et bulk_first (indexName ld) (docArr_of matches) d s = (Inr (res, u), s')"
  shows "fst (loadRecord et bulk_first matches ld s) =
           (if updated res \<noteq> []
            then Inl (Error (''Category '' @ contentID (hd matches)
                               @ '' appears to have duplicates''))
            else if errors res \<noteq> []
            then Inl (Error (''Category '' @ contentID (hd matches)
                               @ '' appears had document errors''))
            else Inr ())"
  using assms by (cases matches) (simp_all add: loadRecord_def Let_def)

theorem loadRecord_checks_bulk_result_witness:
  "fst (loadRecord
          (mock_estools (Inr \<lparr>updated = [''35884_0''], errors = []\<rparr>) (Inr ()) (Inr ()))
          True [category_match_35884] test_loader Map.empty)
     = Inl (Error ''Category 35884 appears to have duplicates'')"
proof -
  let ?et = "mock_estools (Inr \<lparr>updated = [''35884_0''], errors = []\<rparr>) (Inr ()) (Inr ())"
  let ?d = "\<lparr> display_contentid = ''35884'', display_name = ''Tobacco Control'',
              display_weight = JNum 110, display_content = JUndefined \<rparr>"
  have 1: "[category_match_35884] \<noteq> []" by simp
  have 2: "find_categoryDisplay [category_match_35884] = Some ?d"
    by (simp add: find_categoryDisplay_def category_match_35884_def)
  have 3: "write_both ?et True (indexName test_loader) (docArr_of [category_match_35884]) ?d
             Map.empty
             = (Inr (\<lparr>updated = [''35884_0''], errors = []\<rparr>, ()), Map.empty)"
    by (simp add: write_both_def mock_estools_def)
  from loadRecord_checks_bulk_result [OF 1 2 3] show ?thesis
    by (simp add: category_match_35884_def)
qed

text \<open>
  The claim as stated fails when the bulk write reports an updated document and the
  write of the category display is rejected: \<open>loadRecord\<close> raises the error of that
  write, which does not name the category.
\<close>

theorem loadRecord_rethrows_display_write_error:
  "fst (loadRecord
          (mock_estools (Inr \<lparr>updated = [''35884_0''], errors = []\<rparr>)
             (Inl (Error ''Internal Server Error'')) (Inr ()))
          True [category_match_35884] test_loader Map.empty)
     = Inl (Error ''Internal Server Error'')"
  by (simp add: loadRecord_def category_match_35884_def find_categoryDisplay_def docArr_of_def
      write_both_def mock_estools_def test_loader_def Let_def)

section \<open>Validation of the configuration\<close>

subsection \<open>The order of the errors\<close>

text \<open>
  Claim C9, as the code has it. \<open>ValidateConfig\<close> of either component returns the errors of
  the checks that fail, in the order of its checks: mapping path, settings path, hosts,
  socket limit for the loader; hosts, settings path, analyzer name, socket limit for the
  transformer. It returns \<open>[]\<close> on a configuration that passes every check, and exactly
  the one error of a required field when that field is omitted and the rest is valid.
\<close>

theorem ValidateConfig_errors_in_check_order:
  fixes config :: config
  defines "mp \<equiv> cfg config ''mappingPath''"
    and "sp \<equiv> cfg config ''settingsPath''"
    and "hs \<equiv> cfg config ''eshosts''"
    and "an \<equiv> cfg config ''analyzer''"
    and "sl \<equiv> cfg config ''socketLimit''"
  defines "given \<equiv> \<lambda>v. truthy v \<and> typeof v = ''string''"
    and "limit_ok \<equiv> \<not> truthy sl \<or> typeof sl = ''number'' \<and> \<not> le_zero sl"
  shows
   "loader_ValidateConfig config =
      map snd (filter fst
        [(\<not> given mp, Error ''mappingPath is required for the elastic loader''),
         (\<not> given sp, Error ''settingsPath is required for the elastic loader''),
         (\<not> truthy hs, Error ''eshosts is required for the elastic loader''),
         (\<not> limit_ok, Error ''socketLimit must be a number greater than 0'')])
    \<and> (given mp \<and> given sp \<and> truthy hs \<and> limit_ok \<longrightarrow> loader_ValidateConfig config = [])
    \<and> (mp = JUndefined \<and> given sp \<and> truthy hs \<and> limit_ok \<longrightarrow>
          loader_ValidateConfig config = [Error ''mappingPath is required for the elastic loader''])
    \<and> (given mp \<and> sp = JUndefined \<and> truthy hs \<and> limit_ok \<longrightarrow>
          loader_ValidateConfig config = [Error ''settingsPath is required for the elastic loader''])
    \<and> (given mp \<and> given sp \<and> hs = JUndefined \<and> limit_ok \<longrightarrow>
          loader_ValidateConfig config = [Error ''eshosts is required for the elastic loader''])
    \<and> xformer_ValidateConfig config =
      map snd (filter fst
        [(\<not> truthy hs, Error ''eshosts is required for the transformer''),
         (\<not> given sp, Error ''settingsPath is required for the transformer''),
         (\<not> given an, Error ''You must supply the name of analyzer defined in the settings''),
         (\<not> limit_ok, Error ''socketLimit must be a number greater than 0'')])
    \<and> (truthy hs \<and> given sp \<and> given an \<and> limit_ok \<longrightarrow> xformer_ValidateConfig config = [])
    \<and> (hs = JUndefined \<and> given sp \<and> given an \<and> limit_ok \<longrightarrow>
          xformer_ValidateConfig config = [Error ''eshosts is required for the transformer''])
    \<and> (truthy hs \<and> sp = JUndefined \<and> given an \<and> limit_ok \<longrightarrow>
          xformer_ValidateConfig config = [Error ''settingsPath is required for the transformer''])
    \<and> (truthy hs \<and> given sp \<and> an = JUndefined \<and> limit_ok \<longrightarrow>
          xformer_ValidateConfig config
            = [Error ''You must supply the name of analyzer defined in the settings''])"
  unfolding mp_def sp_def hs_def an_def sl_def given_def limit_ok_def
  by (intro conjI impI)
     (simp_all add: loader_ValidateConfig_def xformer_ValidateConfig_def Let_def)

theorem ValidateConfig_errors_in_check_order_witness:
  "loader_ValidateConfig loader_GOOD_STEP_CONFIG = []
   \<and> loader_ValidateConfig ((''settingsPath'', JUndefined) # loader_GOOD_STEP_CONFIG)
       = [Error ''settingsPath is required for the elastic loader'']
   \<and> xformer_ValidateConfig xformer_GOOD_STEP_CONFIG = []
   \<and> xformer_ValidateConfig ((''analyzer'', JUndefined) # xformer_GOOD_STEP_CONFIG)
       = [Error ''You must supply the name of analyzer defined in the settings'']
   \<and> xformer_ValidateConfig
         ((''eshosts'', JUndefined) # (''socketLimit'', JNum (- 1)) # xformer_GOOD_STEP_CONFIG)
       = [Error ''eshosts is required for the transformer'',
          Error ''socketLimit must be a number greater than 0'']"
  using ValidateConfig_errors_in_check_order [of loader_GOOD_STEP_CONFIG]
    ValidateConfig_errors_in_check_order
      [of "(''settingsPath'', JUndefined) # loader_GOOD_STEP_CONFIG"]
    ValidateConfig_errors_in_check_order [of xformer_GOOD_STEP_CONFIG]
    ValidateConfig_errors_in_check_order
      [of "(''analyzer'', JUndefined) # xformer_GOOD_STEP_CONFIG"]
    ValidateConfig_errors_in_check_order
      [of "(''eshosts'', JUndefined) # (''socketLimit'', JNum (- 1)) # xformer_GOOD_STEP_CONFIG"]
  by (simp add: cfg_def loader_GOOD_STEP_CONFIG_def xformer_GOOD_STEP_CONFIG_def)

text \<open>
  The claim as stated puts the hosts first for every component. The loader checks the
  hosts third: without hosts and without a mapping path, the error of the mapping path
  comes first.
\<close>

theorem loader_ValidateConfig_mapping_before_hosts:
  "loader_ValidateConfig
     ((''eshosts'', JUndefined) # (''mappingPath'', JUndefined) # loader_GOOD_STEP_CONFIG)
     = [Error ''mappingPath is required for the elastic loader'',
        Error ''eshosts is required for the elastic loader'']"
  by (simp add: loader_ValidateConfig_def cfg_def loader_GOOD_STEP_CONFIG_def)

subsection \<open>ValidateConfig and GetInstance\<close>

text \<open>
  The error that \<open>GetInstance\<close> raises on a configuration for which \<open>ValidateConfig\<close>
  returns an error, for the loader and for the transformer.
\<close>

lemma loader_GetInstance_raises:
  fixes env :: node_env and config :: config
  defines "mp \<equiv> cfg config ''mappingPath''"
    and "sp \<equiv> cfg config ''settingsPath''"
  defines "given \<equiv> \<lambda>v. truthy v \<and> typeof v = ''string''"
    and "mapFullPath \<equiv> path_join env (appRoot env) (str_of mp)"
    and "settingsFullPath \<equiv> path_join env (appRoot env) (str_of sp)"
  assumes ne: "loader_ValidateConfig config \<noteq> []"
  shows "loader_GetInstance env config =
           Inl (if given mp \<and> require_file env mapFullPath = None
                then Error (''mappingPath cannot be loaded: '' @ mapFullPath)
                else if given mp \<and> given sp \<and> require_file env settingsFullPath = None
                then Error (''settingsPath cannot be loaded: '' @ settingsFullPath)
                else hd (loader_ValidateConfig config))"
proof -
  define c1 where "c1 \<longleftrightarrow> \<not> truthy (cfg config ''mappingPath'')
                          \<or> typeof (cfg config ''mappingPath'') \<noteq> ''string''"
  define c2 where "c2 \<longleftrightarrow> \<not> truthy (cfg config ''settingsPath'')
                          \<or> typeof (cfg config ''settingsPath'') \<noteq> ''string''"
  define c3 where "c3 \<longleftrightarrow> \<not> truthy (cfg config ''eshosts'')"
  define c4 where "c4 \<longleftrightarrow> truthy (cfg config ''socketLimit'')
                          \<and> (typeof (cfg config ''socketLimit'') \<noteq> ''number''
                               \<or> le_zero (cfg config ''socketLimit''))"
  define g1 where "g1 \<longleftrightarrow> truthy (cfg config ''mappingPath'')
                          \<and> typeof (cfg config ''mappingPath'') = ''string''"
  define g2 where "g2 \<longleftrightarrow> truthy (cfg config ''settingsPath'')
                          \<and> typeof (cfg config ''settingsPath'') = ''string''"
  define r1 where "r1 = require_file env (path_join env (appRoot env)
                                            (str_of (cfg config ''mappingPath'')))"
  define r2 where "r2 = require_file env (path_join env (appRoot env)
                                            (str_of (cfg config ''settingsPath'')))"
  have g: "g1 = (\<not> c1)" "g2 = (\<not> c2)"
    by (auto simp: g1_def g2_def c1_def c2_def)
  show ?thesis
    using ne
    unfolding loader_GetInstance_def loader_ValidateConfig_def Let_def
      mapFullPath_def settingsFullPath_def given_def mp_def sp_def
    unfolding c1_def [symmetric] c2_def [symmetric] c3_def [symmetric] c4_def [symmetric]
      g1_def [symmetric] g2_def [symmetric] r1_def [symmetric] r2_def [symmetric]
    unfolding g
    by (cases c1; cases c2; cases c3; cases c4; cases r1; cases r2; simp)
qed

lemma xformer_GetInstance_raises:
  fixes env :: node_env and config :: config
  defines "hs \<equiv> cfg config ''eshosts''"
    and "sp \<equiv> cfg config ''settingsPath''"
    and "sl \<equiv> cfg config ''socketLimit''"
  defines "given \<equiv> \<lambda>v. truthy v \<and> typeof v = ''string''"
    and "bad_limit \<equiv> truthy sl \<and> (typeof sl \<noteq> ''number'' \<or> le_zero sl)"
    and "settingsFullPath \<equiv> path_join env (appRoot env) (str_of sp)"
    and "options \<equiv> \<lparr> hosts = hs, apiVersion = JStr ''5.6'',
                      maxSockets = (if truthy sl then sl else JNum 80), keepAlive = True \<rparr>"
  assumes ne: "xformer_ValidateConfig config \<noteq> []"
  shows "xformer_GetInstance env config =
           Inl (if \<not> truthy hs then Error ''eshosts is required for the elastic loader''
                else if bad_limit then Error ''socketLimit must be a number greater than 0''
                else case new_Client env options of
                       Some thrown \<Rightarrow> thrown
                     | None \<Rightarrow>
                         if \<not> given sp
                         then Error ''settingsPath is required for the elastic loader''
                         else if require_file env settingsFullPath = None
                         then Error (''settingsPath cannot be loaded: '' @ settingsFullPath)
                         else Error
                                ''You must supply the name of analyzer defined in the settings'')"
proof -
  define ch where "ch \<longleftrightarrow> truthy (cfg config ''eshosts'')"
  define cl where "cl \<longleftrightarrow> truthy (cfg config ''socketLimit'')
                          \<and> (typeof (cfg config ''socketLimit'') \<noteq> ''number''
                               \<or> le_zero (cfg config ''socketLimit''))"
  define cs where "cs \<longleftrightarrow> \<not> truthy (cfg config ''settingsPath'')
                          \<or> typeof (cfg config ''settingsPath'') \<noteq> ''string''"
  define ca where "ca \<longleftrightarrow> \<not> truthy (cfg config ''analyzer'')
                          \<or> typeof (cfg config ''analyzer'') \<noteq> ''string''"
  define gs where "gs \<longleftrightarrow> truthy (cfg config ''settingsPath'')
                          \<and> typeof (cfg config ''settingsPath'') = ''string''"
  define nc where "nc = new_Client env
                          \<lparr> hosts = cfg config ''eshosts'', apiVersion = JStr ''5.6'',
                            maxSockets = (if truthy (cfg config ''socketLimit'')
                                          then cfg config ''socketLimit'' else JNum 80),
                            keepAlive = True \<rparr>"
  define r where "r = require_file env (path_join env (appRoot env)
                                          (str_of (cfg config ''settingsPath'')))"
  have g: "gs = (\<not> cs)"
    by (auto simp: gs_def cs_def)
  show ?thesis
    using ne
    unfolding xformer_GetInstance_def xformer_ValidateConfig_def Let_def
      settingsFullPath_def given_def bad_limit_def options_def hs_def sp_def sl_def
    unfolding cl_def [symmetric] cs_def [symmetric] ca_def [symmetric] gs_def [symmetric]
      nc_def [symmetric] r_def [symmetric]
    unfolding ch_def [symmetric] g
    by (cases ch; cases cl; cases cs; cases ca; cases nc; cases r; simp)
qed

text \<open>Which check puts which error into the list of the transformer.\<close>

lemma xformer_ValidateConfig_members:
  "Error ''eshosts is required for the transformer'' \<in> set (xformer_ValidateConfig config)
     \<longleftrightarrow> \<not> truthy (cfg config ''eshosts'')"
  "Error ''settingsPath is required for the transformer'' \<in> set (xformer_ValidateConfig config)
     \<longleftrightarrow> \<not> (truthy (cfg config ''settingsPath'')
                \<and> typeof (cfg config ''settingsPath'') = ''string'')"
  "Error ''You must supply the name of analyzer defined in the settings''
       \<in> set (xformer_ValidateConfig config)
     \<longleftrightarrow> \<not> (truthy (cfg config ''analyzer'') \<and> typeof (cfg config ''analyzer'') = ''string'')"
  "Error ''socketLimit must be a number greater than 0'' \<in> set (xformer_ValidateConfig config)
     \<longleftrightarrow> truthy (cfg config ''socketLimit'')
           \<and> (typeof (cfg config ''socketLimit'') \<noteq> ''number''
                \<or> le_zero (cfg config ''socketLimit''))"
proof -
  define ch where "ch \<longleftrightarrow> truthy (cfg config ''eshosts'')"
  define cl where "cl \<longleftrightarrow> truthy (cfg config ''socketLimit'')
                          \<and> (typeof (cfg config ''socketLimit'') \<noteq> ''number''
                               \<or> le_zero (cfg config ''socketLimit''))"
  define cs where "cs \<longleftrightarrow> \<not> truthy (cfg config ''settingsPath'')
                          \<or> typeof (cfg config ''settingsPath'') \<noteq> ''string''"
  define ca where "ca \<longleftrightarrow> \<not> truthy (cfg config ''analyzer'')
                          \<or> typeof (cfg config ''analyzer'') \<noteq> ''string''"
  define gs where "gs \<longleftrightarrow> truthy (cfg config ''settingsPath'')
                          \<and> typeof (cfg config ''settingsPath'') = ''string''"
  define ga where "ga \<longleftrightarrow> truthy (cfg config ''analyzer'')
                          \<and> typeof (cfg config ''analyzer'') = ''string''"
  have g: "gs = (\<not> cs)" "ga = (\<not> ca)"
    by (auto simp: gs_def cs_def ga_def ca_def)
  have vc: "xformer_ValidateConfig config =
              (if \<not> ch then [Error ''eshosts is required for the transformer''] else [])
              @ (if cs then [Error ''settingsPath is required for the transformer''] else [])
              @ (if ca
                 then [Error ''You must supply the name of analyzer defined in the settings'']
                 else [])
              @ (if cl then [Error ''socketLimit must be a number greater than 0''] else [])"
    unfolding xformer_ValidateConfig_def Let_def
    unfolding cl_def [symmetric] cs_def [symmetric] ca_def [symmetric]
    unfolding ch_def [symmetric]
    by (cases ch; cases cl; cases cs; cases ca; simp)
  show "Error ''eshosts is required for the transformer'' \<in> set (xformer_ValidateConfig config)
     \<longleftrightarrow> \<not> truthy (cfg config ''eshosts'')"
    unfolding vc ch_def [symmetric] by simp
  show "Error ''settingsPath is required for the transformer''
          \<in> set (xformer_ValidateConfig config)
     \<longleftrightarrow> \<not> (truthy (cfg config ''settingsPath'')
                \<and> typeof (cfg config ''settingsPath'') = ''string'')"
    unfolding vc gs_def [symmetric] g by simp
  show "Error ''You must supply the name of analyzer defined in the settings''
       \<in> set (xformer_ValidateConfig config)
     \<longleftrightarrow> \<not> (truthy (cfg config ''analyzer'') \<and> typeof (cfg config ''analyzer'') = ''string'')"
    unfolding vc ga_def [symmetric] g by simp
  show "Error ''socketLimit must be a number greater than 0''
          \<in> set (xformer_ValidateConfig config)
     \<longleftrightarrow> truthy (cfg config ''socketLimit'')
           \<and> (typeof (cfg config ''socketLimit'') \<noteq> ''number''
                \<or> le_zero (cfg config ''socketLimit''))"
    unfolding vc cl_def [symmetric] by simp
qed

text \<open>
  Claim C10, as the code has it. Whenever \<open>ValidateConfig\<close> of a component returns an
  error, \<open>GetInstance\<close> of that component raises, and the error it raises is this one.
  \<^item> The loader raises the first error of its \<open>ValidateConfig\<close>, word for word; only when a
    schema file whose path is valid cannot be loaded before the check of that error is
    reached, it raises \<open>mappingPath cannot be loaded: <path>\<close>, respectively
    \<open>settingsPath cannot be loaded: <path>\<close>.
  \<^item> The transformer raises the error of the first check that fails in the order hosts,
    socket limit, settings path, analyzer name, each of which is a check of its
    \<open>ValidateConfig\<close>: with the same message for the socket limit and the analyzer name,
    and with \<open>... is required for the elastic loader\<close> where \<open>ValidateConfig\<close> says
    \<open>... is required for the transformer\<close> for the hosts and the settings path. Between
    the socket limit and the settings path it builds the client and raises what that
    constructor throws; after a valid settings path it raises
    \<open>settingsPath cannot be loaded: <path>\<close> when the file cannot be loaded.
\<close>

theorem GetInstance_raises_what_ValidateConfig_reports:
  fixes env :: node_env and config :: config
  defines "mp \<equiv> cfg config ''mappingPath''"
    and "sp \<equiv> cfg config ''settingsPath''"
    and "hs \<equiv> cfg config ''eshosts''"
    and "an \<equiv> cfg config ''analyzer''"
    and "sl \<equiv> cfg config ''socketLimit''"
  defines "given \<equiv> \<lambda>v. truthy v \<and> typeof v = ''string''"
    and "bad_limit \<equiv> truthy sl \<and> (typeof sl \<noteq> ''number'' \<or> le_zero sl)"
    and "mapFullPath \<equiv> path_join env (appRoot env) (str_of mp)"
    and "settingsFullPath \<equiv> path_join env (appRoot env) (str_of sp)"
    and "options \<equiv> \<lparr> hosts = hs, apiVersion = JStr ''5.6'',
                      maxSockets = (if truthy sl then sl else JNum 80), keepAlive = True \<rparr>"
  shows
   "(loader_ValidateConfig config \<noteq> [] \<longrightarrow>
       loader_GetInstance env config =
         Inl (if given mp \<and> require_file env mapFullPath = None
              then Error (''mappingPath cannot be loaded: '' @ mapFullPath)
              else if given mp \<and> given sp \<and> require_file env settingsFullPath = None
              then Error (''settingsPath cannot be loaded: '' @ settingsFullPath)
              else hd (loader_ValidateConfig config)))
    \<and> (xformer_ValidateConfig config \<noteq> [] \<longrightarrow>
       xformer_GetInstance env config =
         Inl (if \<not> truthy hs then Error ''eshosts is required for the elastic loader''
              else if bad_limit then Error ''socketLimit must be a number greater than 0''
              else case new_Client env options of
                     Some thrown \<Rightarrow> thrown
                   | None \<Rightarrow>
                       if \<not> given sp
                       then Error ''settingsPath is required for the elastic loader''
                       else if require_file env settingsFullPath = None
                       then Error (''settingsPath cannot be loaded: '' @ settingsFullPath)
                       else Error
                              ''You must supply the name of analyzer defined in the settings''))
    \<and> (Error ''eshosts is required for the transformer'' \<in> set (xformer_ValidateConfig config)
          \<longleftrightarrow> \<not> truthy hs)
    \<and> (Error ''socketLimit must be a number greater than 0''
            \<in> set (xformer_ValidateConfig config)
          \<longleftrightarrow> bad_limit)
    \<and> (Error ''settingsPath is required for the transformer''
            \<in> set (xformer_ValidateConfig config)
          \<longleftrightarrow> \<not> given sp)
    \<and> (Error ''You must supply the name of analyzer defined in the settings''
            \<in> set (xformer_ValidateConfig config)
          \<longleftrightarrow> \<not> given an)"
  unfolding mp_def sp_def hs_def an_def sl_def given_def bad_limit_def mapFullPath_def
    settingsFullPath_def options_def
  using loader_GetInstance_raises [of config env] xformer_GetInstance_raises [of config env]
    xformer_ValidateConfig_members [of config]
  by blast

theorem GetInstance_raises_what_ValidateConfig_reports_witness:
  "loader_ValidateConfig ((''settingsPath'', JUndefined) # loader_GOOD_STEP_CONFIG) \<noteq> []
   \<and> loader_GetInstance test_env ((''settingsPath'', JUndefined) # loader_GOOD_STEP_CONFIG)
       = Inl (Error ''settingsPath is required for the elastic loader'')
   \<and> loader_ValidateConfig
         ((''eshosts'', JUndefined) # (''mappingPath'', JStr ''chicken'') # loader_GOOD_STEP_CONFIG)
       \<noteq> []
   \<and> loader_GetInstance test_env
         ((''eshosts'', JUndefined) # (''mappingPath'', JStr ''chicken'') # loader_GOOD_STEP_CONFIG)
       = Inl (Error ''mappingPath cannot be loaded: /app/chicken'')
   \<and> xformer_ValidateConfig ((''analyzer'', JArr []) # xformer_GOOD_STEP_CONFIG) \<noteq> []
   \<and> xformer_GetInstance test_env ((''analyzer'', JArr []) # xformer_GOOD_STEP_CONFIG)
       = Inl (Error ''You must supply the name of analyzer defined in the settings'')
   \<and> xformer_ValidateConfig
         ((''eshosts'', JBool True) # (''settingsPath'', JUndefined) # xformer_GOOD_STEP_CONFIG)
       \<noteq> []
   \<and> xformer_GetInstance strict_env
         ((''eshosts'', JBool True) # (''settingsPath'', JUndefined) # xformer_GOOD_STEP_CONFIG)
       = Inl (Error ''Invalid hosts config. Expected a URL, an array of urls, a host config object, or an array of host config objects.'')"
proof -
  have 1: "loader_ValidateConfig ((''settingsPath'', JUndefined) # loader_GOOD_STEP_CONFIG)
             = [Error ''settingsPath is required for the elastic loader'']"
    by (simp add: loader_ValidateConfig_def cfg_def loader_GOOD_STEP_CONFIG_def)
  have 2: "loader_ValidateConfig
             ((''eshosts'', JUndefined) # (''mappingPath'', JStr ''chicken'')
                # loader_GOOD_STEP_CONFIG)
             = [Error ''eshosts is required for the elastic loader'']"
    by (simp add: loader_ValidateConfig_def cfg_def loader_GOOD_STEP_CONFIG_def)
  have 3: "xformer_ValidateConfig ((''analyzer'', JArr []) # xformer_GOOD_STEP_CONFIG)
             = [Error ''You must supply the name of analyzer defined in the settings'']"
    by (simp add: xformer_ValidateConfig_def cfg_def xformer_GOOD_STEP_CONFIG_def)
  have 4: "xformer_ValidateConfig
             ((''eshosts'', JBool True) # (''settingsPath'', JUndefined)
                # xformer_GOOD_STEP_CONFIG)
             = [Error ''settingsPath is required for the transformer'']"
    by (simp add: xformer_ValidateConfig_def cfg_def xformer_GOOD_STEP_CONFIG_def)
  show ?thesis
    using GetInstance_raises_what_ValidateConfig_reports
        [of "(''settingsPath'', JUndefined) # loader_GOOD_STEP_CONFIG" test_env]
      GetInstance_raises_what_ValidateConfig_reports
        [of "(''eshosts'', JUndefined) # (''mappingPath'', JStr ''chicken'')
               # loader_GOOD_STEP_CONFIG" test_env]
      GetInstance_raises_what_ValidateConfig_reports
        [of "(''analyzer'', JArr []) # xformer_GOOD_STEP_CONFIG" test_env]
      GetInstance_raises_what_ValidateConfig_reports
        [of "(''eshosts'', JBool True) # (''settingsPath'', JUndefined)
               # xformer_GOOD_STEP_CONFIG" strict_env]
    unfolding 1 2 3 4
    by (simp add: cfg_def loader_GOOD_STEP_CONFIG_def xformer_GOOD_STEP_CONFIG_def
        test_env_def strict_env_def)
qed

text \<open>
  The claim as stated fails in both directions. Without hosts, the two paths of the
  transformer word the error differently; and with an analyzer name that the settings
  do not define, \<open>ValidateConfig\<close> returns no error while \<open>GetInstance\<close> raises.
\<close>

theorem xformer_GetInstance_differs_from_ValidateConfig:
  "xformer_ValidateConfig ((''eshosts'', JUndefined) # xformer_GOOD_STEP_CONFIG)
     = [Error ''eshosts is required for the transformer'']
   \<and> xformer_GetInstance test_env ((''eshosts'', JUndefined) # xformer_GOOD_STEP_CONFIG)
     = Inl (Error ''eshosts is required for the elastic loader'')
   \<and> xformer_ValidateConfig ((''analyzer'', JStr ''chicken'') # xformer_GOOD_STEP_CONFIG) = []
   \<and> xformer_GetInstance test_env ((''analyzer'', JStr ''chicken'') # xformer_GOOD_STEP_CONFIG)
     = Inl (Error ''Could not find analyzer in settings'')"
  by (simp add: xformer_ValidateConfig_def xformer_GetInstance_def cfg_def
      xformer_GOOD_STEP_CONFIG_def test_env_def Object_prototype_def Let_def)

text \<open>
  Where the prototype chain answers: the analyzer name \<open>toString\<close> is no analyzer of the
  settings, but \<open>analyzer['toString']\<close> finds the function that every object inherits, so
  \<open>GetInstance\<close> returns a transformer, without analyzer options.
\<close>

lemma xformer_GetInstance_inherited_analyzer:
  "xformer_GetInstance test_env ((''analyzer'', JStr ''toString'') # xformer_GOOD_STEP_CONFIG)
     = Inr \<lparr> esclient = \<lparr> hosts = JArr [JStr ''http://example.org:9200''],
                          apiVersion = JStr ''5.6'', maxSockets = JNum 80, keepAlive = True \<rparr>,
             analyzerSetting = [],
             tokenCache = Map.empty, fetchQueue = Map.empty, analyzed = [], logged = [] \<rparr>"
  by (simp add: xformer_GetInstance_def cfg_def xformer_GOOD_STEP_CONFIG_def test_env_def
      Object_prototype_def new_CategoryToMatchTransformer_def Let_def)

end
